theory Spec2Isabelle
  imports Main
begin

section \<open>The countdown clock (hook useBackgroundTimer)\<close>

text \<open>
  \<^verbatim>\<open>interface TimerTime { minutes: number; seconds: number; }\<close>
  The numbers that occur are integers; they are modelled as \<open>int\<close>, so that a
  decrement below zero stays visible.
\<close>

record TimerTime =
  minutes :: int
  seconds :: int

text \<open>The two callbacks the hook receives: \<open>onComplete()\<close> and \<open>onTick(time)\<close>.\<close>

datatype signal = Complete | Tick TimerTime

text \<open>
  The runtime's interval timers. \<open>setInterval\<close> returns a handle that is not in use
  (a positive number, so the handle is truthy), \<open>clearInterval\<close> removes a handle
  from the live ones.
\<close>

definition setInterval :: "nat list \<Rightarrow> nat \<times> nat list" where
  "setInterval ts = (let h = Suc (fold max ts 0) in (h, h # ts))"

definition clearInterval :: "nat \<Rightarrow> nat list \<Rightarrow> nat list" where
  "clearInterval h ts = removeAll h ts"

text \<open>
  The state of the hook: \<open>time\<close> and \<open>isActive\<close> (React state), \<open>intervalRef\<close>
  (the ref holding the handle of the cadence, \<open>None\<close> for \<open>null\<close>), and \<open>live\<close>, the
  handles of the interval timers that call \<open>tick\<close> and have not been cleared.
  The screen wake lock is a best-effort platform resource that no state of the
  countdown depends on; it is not modelled.
\<close>

record clock =
  time :: TimerTime
  isActive :: bool
  intervalRef :: "nat option"
  live :: "nat list"

definition initialClock :: clock where
  "initialClock = \<lparr>time = \<lparr>minutes = 25, seconds = 0\<rparr>, isActive = False,
     intervalRef = None, live = []\<rparr>"

text \<open>
  \<^verbatim>\<open>if (intervalRef.current) { clearInterval(intervalRef.current); intervalRef.current = null; }\<close>
\<close>

definition cancelCadence :: "clock \<Rightarrow> clock" where
  "cancelCadence c =
     (case intervalRef c of
        None \<Rightarrow> c
      | Some h \<Rightarrow> c\<lparr>intervalRef := None, live := clearInterval h (live c)\<rparr>)"

text \<open>
  \<open>tick\<close>: at 0:00 the clock stops, cancels its cadence and calls \<open>onComplete\<close>,
  leaving the time as it is; otherwise it decrements and calls \<open>onTick\<close> with the
  new time.
\<close>

definition tick :: "clock \<Rightarrow> clock \<times> signal list" where
  "tick c =
     (let newTime = time c in
      if seconds newTime = 0 then
        if minutes newTime = 0 then
          (cancelCadence (c\<lparr>isActive := False\<rparr>), [Complete])
        else
          let newTime = newTime\<lparr>minutes := minutes newTime - 1, seconds := 59\<rparr>
          in (c\<lparr>time := newTime\<rparr>, [Tick newTime])
      else
        let newTime = newTime\<lparr>seconds := seconds newTime - 1\<rparr>
        in (c\<lparr>time := newTime\<rparr>, [Tick newTime]))"

text \<open>
  \<open>startTimer\<close>: sets the time, sets \<open>isActive\<close>, clears the interval the ref holds
  (without resetting the ref) and stores the handle of a new one.
\<close>

definition startTimer :: "TimerTime \<Rightarrow> clock \<Rightarrow> clock" where
  "startTimer initialTime c =
     (let ts = (case intervalRef c of None \<Rightarrow> live c | Some h \<Rightarrow> clearInterval h (live c));
          (h, ts') = setInterval ts
      in c\<lparr>time := initialTime, isActive := True, intervalRef := Some h, live := ts'\<rparr>)"

definition pauseTimer :: "clock \<Rightarrow> clock" where
  "pauseTimer c = cancelCadence (c\<lparr>isActive := False\<rparr>)"

definition resetTimer :: "TimerTime \<Rightarrow> clock \<Rightarrow> clock" where
  "resetTimer newTime c = cancelCadence (c\<lparr>time := newTime, isActive := False\<rparr>)"

text \<open>
  The visibility listener only logs; neither branch touches the state.
\<close>

definition handleVisibilityChange :: "bool \<Rightarrow> clock \<Rightarrow> clock" where
  "handleVisibilityChange hidden c =
     (if hidden \<and> isActive c then c
      else if \<not> hidden \<and> isActive c then c
      else c)"

text \<open>Invoking \<open>tick\<close> \<open>n\<close> times in a row, collecting the signals in order.\<close>

fun ticks :: "nat \<Rightarrow> clock \<Rightarrow> clock \<times> signal list" where
  "ticks 0 c = (c, [])"
| "ticks (Suc n) c =
     (let (c1, s1) = tick c; (c2, s2) = ticks n c1 in (c2, s1 @ s2))"

text \<open>
  The interval timer with handle \<open>h\<close> fires: its callback \<open>tick\<close> runs if the
  timer has not been cleared.
\<close>

definition fire :: "nat \<Rightarrow> clock \<Rightarrow> clock \<times> signal list" where
  "fire h c = (if h \<in> set (live c) then tick c else (c, []))"

definition completions :: "signal list \<Rightarrow> nat" where
  "completions sigs = length (filter (\<lambda>s. s = Complete) sigs)"

text \<open>A valid duration: minutes at least 0, seconds in 0..59, not both zero.\<close>

definition validDuration :: "TimerTime \<Rightarrow> bool" where
  "validDuration d \<longleftrightarrow>
     0 \<le> minutes d \<and> 0 \<le> seconds d \<and> seconds d \<le> 59 \<and> \<not> (minutes d = 0 \<and> seconds d = 0)"

definition totalSeconds :: "TimerTime \<Rightarrow> nat" where
  "totalSeconds d = nat (minutes d * 60 + seconds d)"

definition zeroTime :: TimerTime where
  "zeroTime = \<lparr>minutes = 0, seconds = 0\<rparr>"

text \<open>Every live cadence is the one the ref holds.\<close>

definition oneCadence :: "clock \<Rightarrow> bool" where
  "oneCadence c \<longleftrightarrow>
     live c = (case intervalRef c of None \<Rightarrow> [] | Some h \<Rightarrow> [h])"

text \<open>Minutes and seconds of a remaining time that the countdown can decrement.\<close>

definition inRange :: "TimerTime \<Rightarrow> bool" where
  "inRange t \<longleftrightarrow> 0 \<le> minutes t \<and> 0 \<le> seconds t \<and> seconds t \<le> 59"


text \<open>
  One second passes and the cadence held by the ref fires; a host that throttles
  the page delivers the callback in some seconds only (\<open>True\<close> where it does).
\<close>

definition cadence :: "clock \<Rightarrow> clock \<times> signal list" where
  "cadence c = (case intervalRef c of None \<Rightarrow> (c, []) | Some h \<Rightarrow> fire h c)"

fun elapse :: "bool list \<Rightarrow> clock \<Rightarrow> clock \<times> signal list" where
  "elapse [] c = (c, [])"
| "elapse (fired # rest) c =
     (let (c1, s1) = (if fired then cadence c else (c, []));
          (c2, s2) = elapse rest c1
      in (c2, s1 @ s2))"

definition delivered :: "bool list \<Rightarrow> nat" where
  "delivered sched = length (filter (\<lambda>b. b) sched)"

section \<open>The timer worker (timerWorker.ts)\<close>

record worker =
  timerInterval :: "nat option"
  currentTime :: TimerTime
  isRunning :: bool
  intervals :: "nat list"

definition initialWorker :: worker where
  "initialWorker = \<lparr>timerInterval = None, currentTime = \<lparr>minutes = 25, seconds = 0\<rparr>,
     isRunning = False, intervals = []\<rparr>"

datatype message = START_TIMER TimerTime | PAUSE_TIMER | RESET_TIMER TimerTime | GET_TIME | OTHER

datatype posted = TIMER_TICK TimerTime | TIMER_COMPLETE TimerTime

text \<open>\<^verbatim>\<open>function startTimer() { if (timerInterval) return; timerInterval = setInterval(...) }\<close>\<close>

definition workerStartTimer :: "worker \<Rightarrow> worker" where
  "workerStartTimer w =
     (case timerInterval w of
        Some h \<Rightarrow> w
      | None \<Rightarrow> (let (h, ts) = setInterval (intervals w)
                 in w\<lparr>timerInterval := Some h, intervals := ts\<rparr>))"

definition workerClear :: "worker \<Rightarrow> worker" where
  "workerClear w =
     (case timerInterval w of
        None \<Rightarrow> w
      | Some h \<Rightarrow> w\<lparr>timerInterval := None, intervals := clearInterval h (intervals w)\<rparr>)"

fun onmessage :: "message \<Rightarrow> worker \<Rightarrow> worker \<times> posted list" where
  "onmessage (START_TIMER t) w =
     (if \<not> isRunning w then (workerStartTimer (w\<lparr>isRunning := True, currentTime := t\<rparr>), [])
      else (w, []))"
| "onmessage PAUSE_TIMER w = (workerClear (w\<lparr>isRunning := False\<rparr>), [])"
| "onmessage (RESET_TIMER t) w =
     ((workerClear (w\<lparr>isRunning := False\<rparr>))\<lparr>currentTime := t\<rparr>, [TIMER_TICK t])"
| "onmessage GET_TIME w = (w, [TIMER_TICK (currentTime w)])"
| "onmessage OTHER w = (w, [])"

text \<open>The callback of the worker's interval.\<close>

definition workerTick :: "worker \<Rightarrow> worker \<times> posted list" where
  "workerTick w =
     (if \<not> isRunning w then (w, [])
      else if seconds (currentTime w) = 0 then
        if minutes (currentTime w) = 0 then
          (workerClear (w\<lparr>isRunning := False\<rparr>), [TIMER_COMPLETE (currentTime w)])
        else
          let t = (currentTime w)\<lparr>minutes := minutes (currentTime w) - 1, seconds := 59\<rparr>
          in (w\<lparr>currentTime := t\<rparr>, [TIMER_TICK t])
      else
        let t = (currentTime w)\<lparr>seconds := seconds (currentTime w) - 1\<rparr>
        in (w\<lparr>currentTime := t\<rparr>, [TIMER_TICK t]))"

fun workerTicks :: "nat \<Rightarrow> worker \<Rightarrow> worker \<times> posted list" where
  "workerTicks 0 w = (w, [])"
| "workerTicks (Suc n) w =
     (let (w1, p1) = workerTick w; (w2, p2) = workerTicks n w1 in (w2, p1 @ p2))"

definition workerCompletions :: "posted list \<Rightarrow> nat" where
  "workerCompletions ps = length (filter (\<lambda>p. case p of TIMER_COMPLETE t \<Rightarrow> True | _ \<Rightarrow> False) ps)"

section \<open>The page (Index.tsx)\<close>

datatype Phase = Focus | ShortBreak | LongBreak

record TimerState =
  phase :: Phase
  sessionCount :: int

record PomodoroSettings =
  focusTime :: int
  shortBreak :: int
  longBreak :: int
  longBreakInterval :: int

record Statistics =
  totalFocusTime :: int
  totalBreakTime :: int
  completedSessions :: int
  mcqReminders :: int
  todayDate :: string

definition PRESETS_focus :: PomodoroSettings where
  "PRESETS_focus = \<lparr>focusTime = 25, shortBreak = 5, longBreak = 15, longBreakInterval = 4\<rparr>"

text \<open>
  The state of the component. \<open>mcqIntervalRef\<close> is \<open>Some iv\<close> while the interval
  of the reminder is live, \<open>iv\<close> being the \<open>mcqInterval\<close> its callback closed over.
\<close>

record app =
  timerState :: TimerState
  settings :: PomodoroSettings
  statistics :: Statistics
  timer :: clock
  mcqMode :: bool
  mcqInterval :: int
  mcqCountdown :: int
  mcqIntervalRef :: "int option"

text \<open>
  A handler is a closure of one render: it reads \<open>timerState\<close> and \<open>settings\<close> as
  they were in that render, while the updaters it passes to \<open>setTimerState\<close> and
  \<open>setStatistics\<close> receive the latest state (\<open>prev\<close>).
\<close>

record render =
  r_timerState :: TimerState
  r_settings :: PomodoroSettings

definition currentRender :: "app \<Rightarrow> render" where
  "currentRender a = \<lparr>r_timerState = timerState a, r_settings = settings a\<rparr>"

datatype cue = PhaseSound Phase | McqSound

datatype effect =
    PlaySound cue
  | ToastFocusComplete bool
  | ToastBreakOver
  | ToastMcq
  | AutoStart TimerTime

text \<open>
  \<open>a % b === 0\<close> on integers: the remainder of JavaScript truncates, and it is zero
  exactly when \<open>b\<close> divides \<open>a\<close>; \<open>a % 0\<close> is NaN, which is not \<open>0\<close>.
\<close>

definition remIsZero :: "int \<Rightarrow> int \<Rightarrow> bool" where
  "remIsZero a b \<longleftrightarrow> b \<noteq> 0 \<and> a mod b = 0"

text \<open>
  \<open>AutoStart d\<close> stands for \<open>setTimeout(() => startTimer(d), 1000)\<close>.
\<close>

definition handleTimerComplete :: "render \<Rightarrow> app \<Rightarrow> app \<times> effect list" where
  "handleTimerComplete r a =
     (if phase (r_timerState r) = Focus then
        let newSessionCount = sessionCount (r_timerState r) + 1;
            isLongBreak = remIsZero newSessionCount (longBreakInterval (r_settings r));
            nextPhase = (if isLongBreak then LongBreak else ShortBreak);
            nextDuration = (if isLongBreak then longBreak (r_settings r) else shortBreak (r_settings r))
        in (a\<lparr>timerState := (timerState a)\<lparr>phase := nextPhase, sessionCount := newSessionCount\<rparr>,
              statistics := (statistics a)
                \<lparr>totalFocusTime := totalFocusTime (statistics a) + focusTime (r_settings r),
                 completedSessions := completedSessions (statistics a) + 1\<rparr>\<rparr>,
            [PlaySound (PhaseSound nextPhase), ToastFocusComplete isLongBreak,
             AutoStart \<lparr>minutes = nextDuration, seconds = 0\<rparr>])
      else
        let breakTime = (if phase (r_timerState r) = LongBreak then longBreak (r_settings r)
                         else shortBreak (r_settings r))
        in (a\<lparr>timerState := (timerState a)\<lparr>phase := Focus\<rparr>,
              statistics := (statistics a)
                \<lparr>totalBreakTime := totalBreakTime (statistics a) + breakTime\<rparr>\<rparr>,
            [PlaySound (PhaseSound Focus), ToastBreakOver]))"

definition showMcqReminder :: "app \<Rightarrow> app \<times> effect list" where
  "showMcqReminder a =
     (a\<lparr>statistics := (statistics a)\<lparr>mcqReminders := mcqReminders (statistics a) + 1\<rparr>\<rparr>,
      [PlaySound McqSound, ToastMcq])"

definition handleStartTimer :: "render \<Rightarrow> app \<Rightarrow> app" where
  "handleStartTimer r a =
     (let initialTime =
            (if phase (r_timerState r) = Focus then \<lparr>minutes = focusTime (r_settings r), seconds = 0\<rparr>
             else if phase (r_timerState r) = ShortBreak
               then \<lparr>minutes = shortBreak (r_settings r), seconds = 0\<rparr>
               else \<lparr>minutes = longBreak (r_settings r), seconds = 0\<rparr>)
      in a\<lparr>timer := startTimer initialTime (timer a)\<rparr>)"

definition handlePauseTimer :: "app \<Rightarrow> app" where
  "handlePauseTimer a = a\<lparr>timer := pauseTimer (timer a)\<rparr>"

definition handleResetTimer :: "render \<Rightarrow> app \<Rightarrow> app" where
  "handleResetTimer r a =
     (let initialTime = \<lparr>minutes = focusTime (r_settings r), seconds = 0\<rparr>
      in a\<lparr>timer := resetTimer initialTime (timer a),
           timerState := \<lparr>phase = Focus, sessionCount = 0\<rparr>\<rparr>)"

text \<open>Ticking the clock of the page, the signals left to the caller.\<close>

definition tickTimer :: "nat \<Rightarrow> app \<Rightarrow> app" where
  "tickTimer n a = a\<lparr>timer := fst (ticks n (timer a))\<rparr>"

subsection \<open>The reminder scheduler\<close>

text \<open>
  The effect with dependencies \<open>[mcqMode, mcqInterval, isActive, timerState.phase]\<close>:
  it clears the interval the ref holds, then arms a new one or sets the countdown to 0.
\<close>

definition mcqEffect :: "app \<Rightarrow> app" where
  "mcqEffect a =
     (if mcqMode a \<and> isActive (timer a) \<and> phase (timerState a) = Focus then
        a\<lparr>mcqCountdown := mcqInterval a, mcqIntervalRef := Some (mcqInterval a)\<rparr>
      else a\<lparr>mcqCountdown := 0, mcqIntervalRef := None\<rparr>)"

text \<open>The callback of the reminder's interval, \<open>iv\<close> the \<open>mcqInterval\<close> it closed over.\<close>

definition mcqTick :: "int \<Rightarrow> app \<Rightarrow> app \<times> effect list" where
  "mcqTick iv a =
     (if mcqCountdown a \<le> 1 then
        (let (a', es) = showMcqReminder a in (a'\<lparr>mcqCountdown := iv\<rparr>, es))
      else (a\<lparr>mcqCountdown := mcqCountdown a - 1\<rparr>, []))"

definition mcqSecond :: "app \<Rightarrow> app \<times> effect list" where
  "mcqSecond a = (case mcqIntervalRef a of None \<Rightarrow> (a, []) | Some iv \<Rightarrow> mcqTick iv a)"

fun mcqSeconds :: "nat \<Rightarrow> app \<Rightarrow> app \<times> effect list" where
  "mcqSeconds 0 a = (a, [])"
| "mcqSeconds (Suc n) a =
     (let (a1, e1) = mcqSecond a; (a2, e2) = mcqSeconds n a1 in (a2, e1 @ e2))"

definition reminders :: "effect list \<Rightarrow> nat" where
  "reminders es = length (filter (\<lambda>e. e = ToastMcq) es)"

subsection \<open>Loading the statistics\<close>

datatype json =
    JNull
  | JBool bool
  | JNum int
  | JStr string
  | JArr "json list"
  | JObj "(string \<times> json) list"

datatype jsError = SyntaxError | TypeError

text \<open>
  What \<open>localStorage.getItem('pomodoro-stats')\<close> returns, with what \<open>JSON.parse\<close>
  makes of it: \<open>null\<close>; the empty string (falsy, never parsed); a non-empty string
  that is not JSON text (\<open>JSON.parse\<close> throws a SyntaxError); the JSON text of a value.
\<close>

datatype storedItem = NoItem | EmptyString | Malformed | WellFormed json

text \<open>
  Reading a property: a TypeError on \<open>null\<close>, the member of an object if it has
  one, \<open>undefined\<close> (\<open>None\<close>) otherwise.
\<close>

fun getProp :: "string \<Rightarrow> json \<Rightarrow> jsError + json option" where
  "getProp k JNull = Inl TypeError"
| "getProp k (JObj kvs) = Inr (map_of kvs k)"
| "getProp k v = Inr None"

definition statsJson :: "Statistics \<Rightarrow> json" where
  "statsJson s = JObj
     [(''totalFocusTime'', JNum (totalFocusTime s)),
      (''totalBreakTime'', JNum (totalBreakTime s)),
      (''completedSessions'', JNum (completedSessions s)),
      (''mcqReminders'', JNum (mcqReminders s)),
      (''todayDate'', JStr (todayDate s))]"

definition zeroStatistics :: "string \<Rightarrow> Statistics" where
  "zeroStatistics today = \<lparr>totalFocusTime = 0, totalBreakTime = 0, completedSessions = 0,
     mcqReminders = 0, todayDate = today\<rparr>"

text \<open>The initializer of the \<open>statistics\<close> state; what it returns is the initial state.\<close>

definition loadStatistics :: "string \<Rightarrow> storedItem \<Rightarrow> jsError + json" where
  "loadStatistics today saved =
     (case saved of
        NoItem \<Rightarrow> Inr (statsJson (zeroStatistics today))
      | EmptyString \<Rightarrow> Inr (statsJson (zeroStatistics today))
      | Malformed \<Rightarrow> Inl SyntaxError
      | WellFormed parsed \<Rightarrow>
          (case getProp ''todayDate'' parsed of
             Inl e \<Rightarrow> Inl e
           | Inr v \<Rightarrow> if v = Some (JStr today) then Inr parsed
                     else Inr (statsJson (zeroStatistics today))))"


text \<open>
  The state of the page after its first render, \<open>today\<close> the date string and no
  statistics stored.
\<close>

definition initialApp :: "string \<Rightarrow> app" where
  "initialApp today =
     \<lparr>timerState = \<lparr>phase = Focus, sessionCount = 0\<rparr>, settings = PRESETS_focus,
      statistics = zeroStatistics today, timer = initialClock, mcqMode = False,
      mcqInterval = 300, mcqCountdown = 0, mcqIntervalRef = None\<rparr>"

text \<open>The minutes configured for a phase, as \<open>handleStartTimer\<close> selects them.\<close>

definition phaseMinutes :: "PomodoroSettings \<Rightarrow> Phase \<Rightarrow> int" where
  "phaseMinutes st ph =
     (case ph of Focus \<Rightarrow> focusTime st | ShortBreak \<Rightarrow> shortBreak st | LongBreak \<Rightarrow> longBreak st)"

text \<open>The page with the focus time set to one minute.\<close>

definition oneMinuteFocus :: app where
  "oneMinuteFocus =
     (initialApp ''Thu Jan 01 2026'')\<lparr>settings := PRESETS_focus\<lparr>focusTime := 1\<rparr>\<rparr>"

text \<open>A completion handled by the handler of the current render.\<close>

definition complete :: "app \<Rightarrow> app" where
  "complete a = fst (handleTimerComplete (currentRender a) a)"

subsection \<open>The countdown as the page runs it\<close>

text \<open>
  \<open>startTimer\<close> hands \<open>setInterval\<close> the \<open>tick\<close> of the render in which it was
  called: \<open>tick\<close> is memoized on \<open>onComplete\<close>, a new function in every render, and
  nothing registers a newer \<open>tick\<close> with a running interval. So the interval started
  from render \<open>r\<close> calls \<open>r\<close>'s \<open>tick\<close>, whose \<open>onComplete\<close> is \<open>r\<close>'s
  \<open>handleTimerComplete\<close>. \<open>cadenceSecond r\<close> is one firing of that interval.
\<close>

definition cadenceSecond :: "render \<Rightarrow> app \<Rightarrow> app \<times> effect list" where
  "cadenceSecond r a =
     (let (c, sigs) = cadence (timer a); a' = a\<lparr>timer := c\<rparr>
      in if Complete \<in> set sigs then handleTimerComplete r a' else (a', []))"

fun cadenceSeconds :: "nat \<Rightarrow> render \<Rightarrow> app \<Rightarrow> app \<times> effect list" where
  "cadenceSeconds 0 r a = (a, [])"
| "cadenceSeconds (Suc n) r a =
     (let (a1, e1) = cadenceSecond r a; (a2, e2) = cadenceSeconds n r a1 in (a2, e1 @ e2))"

text \<open>
  The timeout that \<open>handleTimerComplete\<close> sets fires: it calls the \<open>startTimer\<close> its
  handler closed over, the one of the handler's own render, so the new interval
  calls that render's \<open>tick\<close> again.
\<close>

definition autoStart :: "TimerTime \<Rightarrow> app \<Rightarrow> app" where
  "autoStart d a = a\<lparr>timer := startTimer d (timer a)\<rparr>"

text \<open>The timeouts among the effects of a handler fire, in order.\<close>

fun runTimeouts :: "effect list \<Rightarrow> app \<Rightarrow> app" where
  "runTimeouts [] a = a"
| "runTimeouts (AutoStart d # es) a = runTimeouts es (autoStart d a)"
| "runTimeouts (e # es) a = runTimeouts es a"

text \<open>
  A run of the page from its first render, with the preset of 25 and 5 minutes:
  Start is clicked; the focus countdown runs and completes on the firing that finds
  0:00, the 1501st; the timeout starts the short break; the break countdown runs
  and completes on its 301st firing. Both intervals were started from the first
  render.
\<close>

definition firstRender :: render where
  "firstRender = currentRender (initialApp ''Thu Jan 01 2026'')"

definition afterFocus :: "app \<times> effect list" where
  "afterFocus =
     cadenceSeconds 1501 firstRender
       (handleStartTimer firstRender (initialApp ''Thu Jan 01 2026''))"

definition afterBreak :: "app \<times> effect list" where
  "afterBreak =
     cadenceSeconds 301 firstRender (runTimeouts (snd afterFocus) (fst afterFocus))"

text \<open>The page in a running focus countdown with the reminder switched on.\<close>

definition studying :: app where
  "studying =
     (handleStartTimer firstRender (initialApp ''Thu Jan 01 2026''))\<lparr>mcqMode := True\<rparr>"

text \<open>The worker after \<open>START_TIMER\<close> with 25:00 from its initial state.\<close>

definition runningWorker :: worker where
  "runningWorker = fst (onmessage (START_TIMER \<lparr>minutes = 25, seconds = 0\<rparr>) initialWorker)"

text \<open>Every live interval of the worker is the one \<open>timerInterval\<close> holds.\<close>

definition workerOneCadence :: "worker \<Rightarrow> bool" where
  "workerOneCadence w \<longleftrightarrow>
     intervals w = (case timerInterval w of None \<Rightarrow> [] | Some h \<Rightarrow> [h])"

text \<open>
  A longer run of the page, continuing the one above. The user pauses the
  auto-started break and clicks Start, so that the break runs from a render in the
  break and ends in the focus phase with one session counted. Start is clicked
  again; the second focus countdown completes and sets the timeout for the next
  break. Before the timeout fires the user clicks Reset. Then the timeout fires and
  starts the break countdown, which runs to completion.
\<close>

definition breakRestarted :: app where
  "breakRestarted =
     handleStartTimer
       (currentRender (handlePauseTimer (runTimeouts (snd afterFocus) (fst afterFocus))))
       (handlePauseTimer (runTimeouts (snd afterFocus) (fst afterFocus)))"

definition afterRestartedBreak :: "app \<times> effect list" where
  "afterRestartedBreak =
     cadenceSeconds 301
       (currentRender (handlePauseTimer (runTimeouts (snd afterFocus) (fst afterFocus))))
       breakRestarted"

definition secondRender :: render where
  "secondRender = currentRender (fst afterRestartedBreak)"

definition afterSecondFocus :: "app \<times> effect list" where
  "afterSecondFocus =
     cadenceSeconds 1501 secondRender (handleStartTimer secondRender (fst afterRestartedBreak))"

definition resetInDelay :: app where
  "resetInDelay =
     runTimeouts (snd afterSecondFocus)
       (handleResetTimer (currentRender (fst afterSecondFocus)) (fst afterSecondFocus))"

definition afterResetRun :: "app \<times> effect list" where
  "afterResetRun = cadenceSeconds 301 secondRender resetInDelay"

section \<open>Properties of the countdown clock\<close>

lemma completions_simps [simp]:
  "completions [] = 0"
  "completions (Complete # xs) = Suc (completions xs)"
  "completions (Tick t # xs) = completions xs"
  "completions (xs @ ys) = completions xs + completions ys"
  by (simp_all add: completions_def)

lemma validDuration_inRange: "validDuration d \<Longrightarrow> inRange d"
  by (simp add: validDuration_def inRange_def)

lemma totalSeconds_zero: "inRange t \<Longrightarrow> totalSeconds t = 0 \<Longrightarrow> t = zeroTime"
  by (cases t) (auto simp: inRange_def totalSeconds_def zeroTime_def)

lemma tick_decrement:
  assumes "inRange (time c)" and "totalSeconds (time c) = Suc k"
  shows "\<exists>t. tick c = (c\<lparr>time := t\<rparr>, [Tick t]) \<and> inRange t \<and> totalSeconds t = k"
proof (cases "seconds (time c) = 0")
  case True
  with assms have m: "minutes (time c) \<noteq> 0"
    by (auto simp: totalSeconds_def)
  let ?t = "(time c)\<lparr>minutes := minutes (time c) - 1, seconds := 59\<rparr>"
  have "tick c = (c\<lparr>time := ?t\<rparr>, [Tick ?t])"
    using True m by (simp add: tick_def Let_def)
  moreover have "inRange ?t"
    using assms(1) m by (simp add: inRange_def)
  moreover have "totalSeconds ?t = k"
    using assms True m by (simp add: totalSeconds_def inRange_def)
  ultimately show ?thesis by blast
next
  case False
  let ?t = "(time c)\<lparr>seconds := seconds (time c) - 1\<rparr>"
  have "tick c = (c\<lparr>time := ?t\<rparr>, [Tick ?t])"
    using False by (simp add: tick_def Let_def)
  moreover have "inRange ?t"
    using assms(1) False by (simp add: inRange_def)
  moreover have "totalSeconds ?t = k"
    using assms False by (simp add: totalSeconds_def inRange_def)
  ultimately show ?thesis by blast
qed

lemma tick_at_zero:
  "time c = zeroTime \<Longrightarrow> tick c = (cancelCadence (c\<lparr>isActive := False\<rparr>), [Complete])"
  by (simp add: tick_def zeroTime_def)

text \<open>
  While the remaining time allows, \<open>k\<close> ticks only change the time, take \<open>k\<close>
  seconds off it and call \<open>onComplete\<close> never.
\<close>

lemma ticks_countdown:
  "inRange (time c) \<Longrightarrow> k \<le> totalSeconds (time c) \<Longrightarrow>
   \<exists>t. fst (ticks k c) = c\<lparr>time := t\<rparr> \<and> inRange t
       \<and> totalSeconds t = totalSeconds (time c) - k
       \<and> completions (snd (ticks k c)) = 0"
proof (induction k arbitrary: c)
  case 0
  then show ?case by (intro exI [of _ "time c"]) simp
next
  case (Suc k)
  then obtain j where j: "totalSeconds (time c) = Suc j" and kj: "k \<le> j"
    by (cases "totalSeconds (time c)") auto
  from tick_decrement [OF Suc.prems(1) j]
  obtain t where t: "tick c = (c\<lparr>time := t\<rparr>, [Tick t])" "inRange t" "totalSeconds t = j"
    by blast
  let ?c1 = "c\<lparr>time := t\<rparr>"
  from Suc.IH [of ?c1] t kj
  obtain t' where t': "fst (ticks k ?c1) = ?c1\<lparr>time := t'\<rparr>" "inRange t'"
      "totalSeconds t' = j - k" "completions (snd (ticks k ?c1)) = 0"
    by auto
  have "fst (ticks (Suc k) c) = c\<lparr>time := t'\<rparr>"
    using t(1) t'(1) by (simp add: split_beta)
  moreover have "completions (snd (ticks (Suc k) c)) = 0"
    using t(1) t'(4) by (simp add: split_beta)
  ultimately show ?case using t' j by auto
qed

lemma ticks_Suc_end:
  "ticks (Suc n) c = (let (c1, s1) = ticks n c; (c2, s2) = tick c1 in (c2, s1 @ s2))"
  by (induction n arbitrary: c) (simp_all add: split_beta)

lemma ticks_to_zero:
  assumes "inRange (time c)"
  shows "fst (ticks (totalSeconds (time c)) c) = c\<lparr>time := zeroTime\<rparr>"
proof -
  from ticks_countdown [OF assms, of "totalSeconds (time c)"]
  obtain t where t: "fst (ticks (totalSeconds (time c)) c) = c\<lparr>time := t\<rparr>" "inRange t"
      "totalSeconds t = 0"
    by auto
  from totalSeconds_zero [OF t(2,3)] t(1) show ?thesis by simp
qed

lemma startTimer_fields [simp]:
  "time (startTimer d c) = d" "isActive (startTimer d c)"
  by (simp_all add: startTimer_def setInterval_def Let_def split: option.splits)

lemma cancelCadence_fields [simp]:
  "time (cancelCadence c) = time c" "isActive (cancelCadence c) = isActive c"
  "intervalRef (cancelCadence c) = None"
  by (simp_all add: cancelCadence_def split: option.splits)

lemma workerCompletions_simps [simp]:
  "workerCompletions [] = 0"
  "workerCompletions (TIMER_COMPLETE t # ps) = Suc (workerCompletions ps)"
  "workerCompletions (TIMER_TICK t # ps) = workerCompletions ps"
  "workerCompletions (ps @ qs) = workerCompletions ps + workerCompletions qs"
  by (simp_all add: workerCompletions_def)

lemma workerTick_decrement:
  assumes "isRunning w" and "inRange (currentTime w)" and "totalSeconds (currentTime w) = Suc k"
  shows "\<exists>t. workerTick w = (w\<lparr>currentTime := t\<rparr>, [TIMER_TICK t]) \<and> inRange t
           \<and> totalSeconds t = k"
proof (cases "seconds (currentTime w) = 0")
  case True
  with assms have m: "minutes (currentTime w) \<noteq> 0"
    by (auto simp: totalSeconds_def)
  let ?t = "(currentTime w)\<lparr>minutes := minutes (currentTime w) - 1, seconds := 59\<rparr>"
  have "workerTick w = (w\<lparr>currentTime := ?t\<rparr>, [TIMER_TICK ?t])"
    using True m assms(1) by (simp add: workerTick_def Let_def)
  moreover have "inRange ?t"
    using assms(2) m by (simp add: inRange_def)
  moreover have "totalSeconds ?t = k"
    using assms True m by (simp add: totalSeconds_def inRange_def)
  ultimately show ?thesis by blast
next
  case False
  let ?t = "(currentTime w)\<lparr>seconds := seconds (currentTime w) - 1\<rparr>"
  have "workerTick w = (w\<lparr>currentTime := ?t\<rparr>, [TIMER_TICK ?t])"
    using False assms(1) by (simp add: workerTick_def Let_def)
  moreover have "inRange ?t"
    using assms(2) False by (simp add: inRange_def)
  moreover have "totalSeconds ?t = k"
    using assms False by (simp add: totalSeconds_def inRange_def)
  ultimately show ?thesis by blast
qed

lemma workerTicks_countdown:
  "isRunning w \<Longrightarrow> inRange (currentTime w) \<Longrightarrow> k \<le> totalSeconds (currentTime w) \<Longrightarrow>
   \<exists>t. fst (workerTicks k w) = w\<lparr>currentTime := t\<rparr> \<and> inRange t
       \<and> totalSeconds t = totalSeconds (currentTime w) - k
       \<and> workerCompletions (snd (workerTicks k w)) = 0"
proof (induction k arbitrary: w)
  case 0
  then show ?case by (intro exI [of _ "currentTime w"]) simp
next
  case (Suc k)
  then obtain j where j: "totalSeconds (currentTime w) = Suc j" and kj: "k \<le> j"
    by (cases "totalSeconds (currentTime w)") auto
  from workerTick_decrement [OF Suc.prems(1,2) j]
  obtain t where t: "workerTick w = (w\<lparr>currentTime := t\<rparr>, [TIMER_TICK t])" "inRange t"
      "totalSeconds t = j"
    by blast
  let ?w1 = "w\<lparr>currentTime := t\<rparr>"
  from Suc.IH [of ?w1] t kj Suc.prems(1)
  obtain t' where t': "fst (workerTicks k ?w1) = ?w1\<lparr>currentTime := t'\<rparr>" "inRange t'"
      "totalSeconds t' = j - k" "workerCompletions (snd (workerTicks k ?w1)) = 0"
    by auto
  have "fst (workerTicks (Suc k) w) = w\<lparr>currentTime := t'\<rparr>"
    using t(1) t'(1) by (simp add: split_beta)
  moreover have "workerCompletions (snd (workerTicks (Suc k) w)) = 0"
    using t(1) t'(4) by (simp add: split_beta)
  ultimately show ?case using t' j by auto
qed

lemma workerTicks_Suc_end:
  "workerTicks (Suc n) w =
     (let (w1, p1) = workerTicks n w; (w2, p2) = workerTick w1 in (w2, p1 @ p2))"
  by (induction n arbitrary: w) (simp_all add: split_beta)

lemma workerTick_at_zero:
  "isRunning w \<Longrightarrow> currentTime w = zeroTime \<Longrightarrow>
   workerTick w = (workerClear (w\<lparr>isRunning := False\<rparr>), [TIMER_COMPLETE zeroTime])"
  by (simp add: workerTick_def zeroTime_def)

lemma workerStartTimer_fields [simp]:
  "currentTime (workerStartTimer w) = currentTime w"
  "isRunning (workerStartTimer w) = isRunning w"
  by (simp_all add: workerStartTimer_def setInterval_def Let_def split: option.splits)

lemma workerClear_fields [simp]:
  "currentTime (workerClear w) = currentTime w"
  "isRunning (workerClear w) = isRunning w"
  "timerInterval (workerClear w) = None"
  by (simp_all add: workerClear_def split: option.splits)

lemma worker_completion:
  assumes "isRunning w" and "inRange (currentTime w)"
  shows "(\<forall>k\<le>totalSeconds (currentTime w). workerCompletions (snd (workerTicks k w)) = 0)
    \<and> fst (workerTicks (totalSeconds (currentTime w)) w) = w\<lparr>currentTime := zeroTime\<rparr>
    \<and> workerCompletions (snd (workerTicks (Suc (totalSeconds (currentTime w))) w)) = 1
    \<and> fst (workerTicks (Suc (totalSeconds (currentTime w))) w)
        = workerClear (w\<lparr>currentTime := zeroTime, isRunning := False\<rparr>)"
proof -
  let ?n = "totalSeconds (currentTime w)"
  have early: "\<forall>k\<le>?n. workerCompletions (snd (workerTicks k w)) = 0"
  proof (intro allI impI)
    fix k assume "k \<le> ?n"
    with workerTicks_countdown [OF assms, of k]
    show "workerCompletions (snd (workerTicks k w)) = 0" by auto
  qed
  from workerTicks_countdown [OF assms, of ?n]
  obtain t where t: "fst (workerTicks ?n w) = w\<lparr>currentTime := t\<rparr>" "inRange t"
      "totalSeconds t = 0"
    by auto
  have z: "fst (workerTicks ?n w) = w\<lparr>currentTime := zeroTime\<rparr>"
    using totalSeconds_zero [OF t(2,3)] t(1) by simp
  have last: "workerTick (fst (workerTicks ?n w)) =
      (workerClear (w\<lparr>currentTime := zeroTime, isRunning := False\<rparr>), [TIMER_COMPLETE zeroTime])"
    using workerTick_at_zero [of "w\<lparr>currentTime := zeroTime\<rparr>"] z assms(1) by simp
  have sig: "snd (workerTicks (Suc ?n) w) = snd (workerTicks ?n w) @ [TIMER_COMPLETE zeroTime]"
    using last by (simp add: workerTicks_Suc_end split_beta del: workerTicks.simps)
  have st: "fst (workerTicks (Suc ?n) w)
      = workerClear (w\<lparr>currentTime := zeroTime, isRunning := False\<rparr>)"
    using last by (simp add: workerTicks_Suc_end split_beta del: workerTicks.simps)
  have "workerCompletions (snd (workerTicks (Suc ?n) w)) = 1"
    using early sig by simp
  then show ?thesis
    using early z st by simp
qed

lemma clock_completion:
  assumes "inRange (time c)"
  shows "(\<forall>k\<le>totalSeconds (time c). completions (snd (ticks k c)) = 0)
    \<and> fst (ticks (totalSeconds (time c)) c) = c\<lparr>time := zeroTime\<rparr>
    \<and> completions (snd (ticks (Suc (totalSeconds (time c))) c)) = 1
    \<and> fst (ticks (Suc (totalSeconds (time c))) c)
        = cancelCadence (c\<lparr>time := zeroTime, isActive := False\<rparr>)"
proof -
  let ?n = "totalSeconds (time c)"
  have early: "\<forall>k\<le>?n. completions (snd (ticks k c)) = 0"
  proof (intro allI impI)
    fix k assume "k \<le> ?n"
    with ticks_countdown [OF assms, of k] show "completions (snd (ticks k c)) = 0" by auto
  qed
  have z: "fst (ticks ?n c) = c\<lparr>time := zeroTime\<rparr>"
    by (rule ticks_to_zero [OF assms])
  have last: "tick (fst (ticks ?n c)) =
      (cancelCadence (c\<lparr>time := zeroTime, isActive := False\<rparr>), [Complete])"
    using tick_at_zero [of "c\<lparr>time := zeroTime\<rparr>"] z by simp
  have sig: "snd (ticks (Suc ?n) c) = snd (ticks ?n c) @ [Complete]"
    using last by (simp add: ticks_Suc_end split_beta del: ticks.simps)
  have st: "fst (ticks (Suc ?n) c) = cancelCadence (c\<lparr>time := zeroTime, isActive := False\<rparr>)"
    using last by (simp add: ticks_Suc_end split_beta del: ticks.simps)
  have "completions (snd (ticks (Suc ?n) c)) = 1"
    using early sig by simp
  then show ?thesis
    using early z st by simp
qed

text \<open>
  The clock and the worker hold one cadence at a time: the invariants \<open>oneCadence\<close> and
  \<open>workerOneCadence\<close> hold initially and every operation keeps them.
\<close>

lemma fold_max_ge: "(a::nat) \<le> fold max ts a"
proof (induction ts arbitrary: a)
  case Nil
  show ?case by simp
next
  case (Cons y ys)
  have "a \<le> max y a" by simp
  also have "\<dots> \<le> fold max ys (max y a)" by (rule Cons.IH)
  finally show ?case by simp
qed

lemma fold_max_upper: "x \<in> set ts \<Longrightarrow> (x::nat) \<le> fold max ts a"
proof (induction ts arbitrary: a)
  case Nil
  then show ?case by simp
next
  case (Cons y ys)
  show ?case
  proof (cases "x = y")
    case True
    have "x \<le> max y a" using True by simp
    also have "\<dots> \<le> fold max ys (max y a)" by (rule fold_max_ge)
    finally show ?thesis by simp
  next
    case False
    with Cons.prems have "x \<in> set ys" by simp
    from Cons.IH [OF this] show ?thesis by simp
  qed
qed

lemma setInterval_fresh: "fst (setInterval ts) \<notin> set ts"
  using fold_max_upper [of "Suc (fold max ts 0)" ts 0] by (auto simp: setInterval_def Let_def)

lemma setInterval_live: "snd (setInterval ts) = fst (setInterval ts) # ts"
  by (simp add: setInterval_def Let_def)

lemma oneCadence_cancel:
  "oneCadence c \<Longrightarrow> live (cancelCadence c) = []"
  by (auto simp: oneCadence_def cancelCadence_def clearInterval_def split: option.splits)

lemma oneCadence_startTimer: "oneCadence c \<Longrightarrow> oneCadence (startTimer d c)"
  by (auto simp: oneCadence_def startTimer_def setInterval_def clearInterval_def Let_def
      split: option.splits)

lemma oneCadence_pauseTimer: "oneCadence c \<Longrightarrow> oneCadence (pauseTimer c)"
  by (auto simp: oneCadence_def pauseTimer_def cancelCadence_def clearInterval_def
      split: option.splits)

lemma oneCadence_resetTimer: "oneCadence c \<Longrightarrow> oneCadence (resetTimer d c)"
  by (auto simp: oneCadence_def resetTimer_def cancelCadence_def clearInterval_def
      split: option.splits)

lemma oneCadence_tick: "oneCadence c \<Longrightarrow> oneCadence (fst (tick c))"
  by (auto simp: oneCadence_def tick_def cancelCadence_def clearInterval_def Let_def
      split: option.splits)

lemma oneCadence_initial: "oneCadence initialClock"
  by (simp add: oneCadence_def initialClock_def)

lemma startTimer_running:
  "\<exists>h. intervalRef (startTimer d c) = Some h \<and> h \<in> set (live (startTimer d c))"
  by (simp add: startTimer_def setInterval_def Let_def split: option.splits)

lemma workerOneCadence_clear:
  "workerOneCadence w \<Longrightarrow> intervals (workerClear w) = []"
  by (auto simp: workerOneCadence_def workerClear_def clearInterval_def split: option.splits)

lemma workerOneCadence_start:
  "workerOneCadence w \<Longrightarrow> workerOneCadence (fst (onmessage (START_TIMER d) w))"
  by (auto simp: workerOneCadence_def workerStartTimer_def setInterval_def Let_def
      split: option.splits)

lemma workerOneCadence_initial: "workerOneCadence initialWorker"
  by (simp add: workerOneCadence_def initialWorker_def)

text \<open>
  Claim C1, as amended. For every valid duration \<open>d\<close>, after \<open>startTimer d\<close> the first
  \<open>minutes d * 60 + seconds d\<close> ticks emit no completion signal and leave the remaining
  time at 0:00 with the clock still active and its cadence live; it is the next tick,
  the one that finds 0:00, that emits the completion signal (exactly one so far),
  stops the clock and cancels its cadence: the ref is cleared and no interval is
  live any more. The worker's countdown, started by \<open>START_TIMER\<close> while it is not
  running, behaves the same way: no completion message during the first ticks, 0:00
  and still running with its interval held after them, and on the next tick exactly
  one completion message, \<open>isRunning\<close> false, \<open>timerInterval\<close> cleared and no interval
  live.
\<close>

theorem completion_on_tick_after_zero:
  assumes "validDuration d"
  shows "(\<forall>k\<le>totalSeconds d. completions (snd (ticks k (startTimer d c))) = 0)
    \<and> time (fst (ticks (totalSeconds d) (startTimer d c))) = zeroTime
    \<and> isActive (fst (ticks (totalSeconds d) (startTimer d c)))
    \<and> completions (snd (ticks (Suc (totalSeconds d)) (startTimer d c))) = 1
    \<and> time (fst (ticks (Suc (totalSeconds d)) (startTimer d c))) = zeroTime
    \<and> \<not> isActive (fst (ticks (Suc (totalSeconds d)) (startTimer d c)))
    \<and> intervalRef (fst (ticks (Suc (totalSeconds d)) (startTimer d c))) = None
    \<and> (oneCadence c \<longrightarrow>
        live (fst (ticks (totalSeconds d) (startTimer d c))) \<noteq> []
      \<and> live (fst (ticks (Suc (totalSeconds d)) (startTimer d c))) = [])
    \<and> (\<not> isRunning w \<longrightarrow>
        (\<forall>k\<le>totalSeconds d.
           workerCompletions (snd (workerTicks k (fst (onmessage (START_TIMER d) w)))) = 0)
      \<and> currentTime (fst (workerTicks (totalSeconds d) (fst (onmessage (START_TIMER d) w))))
          = zeroTime
      \<and> isRunning (fst (workerTicks (totalSeconds d) (fst (onmessage (START_TIMER d) w))))
      \<and> timerInterval (fst (workerTicks (totalSeconds d) (fst (onmessage (START_TIMER d) w))))
          \<noteq> None
      \<and> workerCompletions
          (snd (workerTicks (Suc (totalSeconds d)) (fst (onmessage (START_TIMER d) w)))) = 1
      \<and> currentTime (fst (workerTicks (Suc (totalSeconds d)) (fst (onmessage (START_TIMER d) w))))
          = zeroTime
      \<and> \<not> isRunning (fst (workerTicks (Suc (totalSeconds d)) (fst (onmessage (START_TIMER d) w))))
      \<and> timerInterval (fst (workerTicks (Suc (totalSeconds d)) (fst (onmessage (START_TIMER d) w))))
          = None
      \<and> (workerOneCadence w \<longrightarrow>
          intervals (fst (workerTicks (Suc (totalSeconds d)) (fst (onmessage (START_TIMER d) w))))
            = []))"
proof -
  let ?c = "startTimer d c"
  let ?n = "totalSeconds d"
  have r: "inRange (time ?c)"
    using assms by (simp add: validDuration_inRange)
  note h = clock_completion [OF r, simplified]
  have hook: "(\<forall>k\<le>?n. completions (snd (ticks k ?c)) = 0)
    \<and> time (fst (ticks ?n ?c)) = zeroTime
    \<and> isActive (fst (ticks ?n ?c))
    \<and> completions (snd (ticks (Suc ?n) ?c)) = 1
    \<and> time (fst (ticks (Suc ?n) ?c)) = zeroTime
    \<and> \<not> isActive (fst (ticks (Suc ?n) ?c))
    \<and> intervalRef (fst (ticks (Suc ?n) ?c)) = None"
    using h by simp
  have cad: "live (fst (ticks ?n ?c)) \<noteq> [] \<and> live (fst (ticks (Suc ?n) ?c)) = []"
    if oc: "oneCadence c"
  proof -
    have o: "oneCadence ?c"
      by (rule oneCadence_startTimer [OF oc])
    obtain x where x: "intervalRef ?c = Some x" "x \<in> set (live ?c)"
      using startTimer_running by blast
    have a: "live (fst (ticks ?n ?c)) \<noteq> []"
      using h x by auto
    have "oneCadence (?c\<lparr>time := zeroTime, isActive := False\<rparr>)"
      using o by (simp add: oneCadence_def)
    from oneCadence_cancel [OF this] h have "live (fst (ticks (Suc ?n) ?c)) = []"
      by simp
    with a show ?thesis by simp
  qed
  have work: "(\<forall>k\<le>?n.
           workerCompletions (snd (workerTicks k (fst (onmessage (START_TIMER d) w)))) = 0)
      \<and> currentTime (fst (workerTicks ?n (fst (onmessage (START_TIMER d) w)))) = zeroTime
      \<and> isRunning (fst (workerTicks ?n (fst (onmessage (START_TIMER d) w))))
      \<and> timerInterval (fst (workerTicks ?n (fst (onmessage (START_TIMER d) w)))) \<noteq> None
      \<and> workerCompletions
          (snd (workerTicks (Suc ?n) (fst (onmessage (START_TIMER d) w)))) = 1
      \<and> currentTime (fst (workerTicks (Suc ?n) (fst (onmessage (START_TIMER d) w)))) = zeroTime
      \<and> \<not> isRunning (fst (workerTicks (Suc ?n) (fst (onmessage (START_TIMER d) w))))
      \<and> timerInterval (fst (workerTicks (Suc ?n) (fst (onmessage (START_TIMER d) w)))) = None
      \<and> (workerOneCadence w \<longrightarrow>
          intervals (fst (workerTicks (Suc ?n) (fst (onmessage (START_TIMER d) w)))) = [])"
    if nr: "\<not> isRunning w"
  proof -
    let ?w = "fst (onmessage (START_TIMER d) w)"
    have w: "isRunning ?w" "currentTime ?w = d"
      using nr by simp_all
    have ti: "timerInterval ?w \<noteq> None"
      using nr by (auto simp: workerStartTimer_def setInterval_def Let_def split: option.splits)
    have ir: "inRange (currentTime ?w)"
      using w assms by (simp add: validDuration_inRange)
    note wc = worker_completion [OF w(1) ir, unfolded w(2)]
    have iv: "intervals (fst (workerTicks (Suc ?n) ?w)) = []" if "workerOneCadence w"
    proof -
      have "workerOneCadence (?w\<lparr>currentTime := zeroTime, isRunning := False\<rparr>)"
        using workerOneCadence_start [OF that, of d] by (simp add: workerOneCadence_def)
      from workerOneCadence_clear [OF this] wc show ?thesis
        by simp
    qed
    from wc w ti iv show ?thesis
      by simp
  qed
  from hook cad work show ?thesis by blast
qed

theorem completion_on_tick_after_zero_witness:
  "validDuration \<lparr>minutes = 0, seconds = 2\<rparr> \<and> oneCadence initialClock
   \<and> \<not> isRunning initialWorker \<and> workerOneCadence initialWorker
   \<and> completions (snd (ticks 2 (startTimer \<lparr>minutes = 0, seconds = 2\<rparr> initialClock))) = 0
   \<and> completions (snd (ticks (Suc 2) (startTimer \<lparr>minutes = 0, seconds = 2\<rparr> initialClock))) = 1
   \<and> live (fst (ticks (Suc 2) (startTimer \<lparr>minutes = 0, seconds = 2\<rparr> initialClock))) = []
   \<and> workerCompletions (snd (workerTicks (Suc 2)
        (fst (onmessage (START_TIMER \<lparr>minutes = 0, seconds = 2\<rparr>) initialWorker)))) = 1
   \<and> timerInterval (fst (workerTicks (Suc 2)
        (fst (onmessage (START_TIMER \<lparr>minutes = 0, seconds = 2\<rparr>) initialWorker)))) = None
   \<and> intervals (fst (workerTicks (Suc 2)
        (fst (onmessage (START_TIMER \<lparr>minutes = 0, seconds = 2\<rparr>) initialWorker)))) = []"
proof -
  let ?d = "\<lparr>minutes = 0, seconds = 2\<rparr>"
  have v: "validDuration ?d"
    by (simp add: validDuration_def)
  have w: "\<not> isRunning initialWorker"
    by (simp add: initialWorker_def)
  have n: "totalSeconds ?d = 2"
    by (simp add: totalSeconds_def)
  note t = completion_on_tick_after_zero [OF v, of initialClock initialWorker, unfolded n]
  from t have "\<forall>k\<le>2. completions (snd (ticks k (startTimer ?d initialClock))) = 0"
    by (rule conjunct1)
  then have "completions (snd (ticks 2 (startTimer ?d initialClock))) = 0"
    by blast
  moreover from t have "completions (snd (ticks (Suc 2) (startTimer ?d initialClock))) = 1"
    by blast
  moreover from t oneCadence_initial
  have "live (fst (ticks (Suc 2) (startTimer ?d initialClock))) = []"
    by blast
  moreover from t w have "workerCompletions (snd (workerTicks (Suc 2)
        (fst (onmessage (START_TIMER ?d) initialWorker)))) = 1"
    by blast
  moreover from t w have "timerInterval (fst (workerTicks (Suc 2)
        (fst (onmessage (START_TIMER ?d) initialWorker)))) = None"
    by blast
  moreover from t w workerOneCadence_initial have "intervals (fst (workerTicks (Suc 2)
        (fst (onmessage (START_TIMER ?d) initialWorker)))) = []"
    by blast
  ultimately show ?thesis using v w oneCadence_initial workerOneCadence_initial by blast
qed

text \<open>
  Claim C1 as stated fails: started at 0:01 and ticked once (\<open>0 * 60 + 1\<close> times), the
  clock shows 0:00 and has emitted no completion signal.
\<close>

theorem completion_after_exact_ticks_counterexample:
  "validDuration \<lparr>minutes = 0, seconds = 1\<rparr>
   \<and> time (fst (ticks (totalSeconds \<lparr>minutes = 0, seconds = 1\<rparr>)
        (startTimer \<lparr>minutes = 0, seconds = 1\<rparr> initialClock))) = zeroTime
   \<and> completions (snd (ticks (totalSeconds \<lparr>minutes = 0, seconds = 1\<rparr>)
        (startTimer \<lparr>minutes = 0, seconds = 1\<rparr> initialClock))) \<noteq> 1"
  by (simp add: validDuration_def totalSeconds_def startTimer_def initialClock_def
      setInterval_def tick_def Let_def zeroTime_def)

section \<open>Pause and start\<close>

text \<open>
  Claim C2, as amended. \<open>pauseTimer\<close> leaves the remaining time unchanged, stops the
  clock and cancels its cadence: the ref is cleared, no interval is live any more and
  a further second of the cadence changes nothing. The start control does not
  resume: \<open>handleStartTimer\<close> starts the clock, with one live cadence, at the full
  duration configured for the phase of its render, whatever the remaining time was.
  With a focus time of one minute: start at 1:00, ten ticks give 0:50, pause keeps
  0:50, start gives 1:00 again and one tick 0:59.
\<close>

theorem pause_keeps_time_start_restarts:
  "time (pauseTimer c) = time c \<and> \<not> isActive (pauseTimer c) \<and> intervalRef (pauseTimer c) = None
   \<and> (oneCadence c \<longrightarrow> live (pauseTimer c) = [])
   \<and> cadence (pauseTimer c) = (pauseTimer c, [])
   \<and> time (timer (handlePauseTimer a)) = time (timer a)
   \<and> \<not> isActive (timer (handlePauseTimer a))
   \<and> (oneCadence (timer a) \<longrightarrow> live (timer (handlePauseTimer a)) = [])
   \<and> time (timer (handleStartTimer r a))
       = \<lparr>minutes = phaseMinutes (r_settings r) (phase (r_timerState r)), seconds = 0\<rparr>
   \<and> isActive (timer (handleStartTimer r a))
   \<and> (oneCadence (timer a) \<longrightarrow>
        (\<exists>h. intervalRef (timer (handleStartTimer r a)) = Some h
           \<and> live (timer (handleStartTimer r a)) = [h]))
   \<and> time (timer (tickTimer 1 (handleStartTimer (currentRender oneMinuteFocus)
        (handlePauseTimer (tickTimer 10
          (handleStartTimer (currentRender oneMinuteFocus) oneMinuteFocus))))))
       = \<lparr>minutes = 0, seconds = 59\<rparr>"
proof -
  have p: "time (pauseTimer c) = time c \<and> \<not> isActive (pauseTimer c)
    \<and> intervalRef (pauseTimer c) = None"
    by (simp add: pauseTimer_def)
  have pl: "oneCadence c \<longrightarrow> live (pauseTimer c) = []" for c
    by (auto simp: pauseTimer_def oneCadence_def cancelCadence_def clearInterval_def
        split: option.splits)
  have pc: "cadence (pauseTimer c) = (pauseTimer c, [])"
    by (simp add: cadence_def pauseTimer_def)
  have hp: "time (timer (handlePauseTimer a)) = time (timer a)
    \<and> \<not> isActive (timer (handlePauseTimer a))"
    by (simp add: handlePauseTimer_def pauseTimer_def)
  have hpl: "oneCadence (timer a) \<longrightarrow> live (timer (handlePauseTimer a)) = []"
    using pl [of "timer a"] by (simp add: handlePauseTimer_def)
  have hs: "time (timer (handleStartTimer r a))
       = \<lparr>minutes = phaseMinutes (r_settings r) (phase (r_timerState r)), seconds = 0\<rparr>
    \<and> isActive (timer (handleStartTimer r a))"
    by (cases "phase (r_timerState r)") (simp_all add: handleStartTimer_def phaseMinutes_def)
  have hsl: "oneCadence (timer a) \<longrightarrow>
        (\<exists>h. intervalRef (timer (handleStartTimer r a)) = Some h
           \<and> live (timer (handleStartTimer r a)) = [h])"
    by (auto simp: handleStartTimer_def Let_def oneCadence_def startTimer_def setInterval_def
        clearInterval_def split: option.splits)
  have example: "time (timer (tickTimer 1 (handleStartTimer (currentRender oneMinuteFocus)
        (handlePauseTimer (tickTimer 10
          (handleStartTimer (currentRender oneMinuteFocus) oneMinuteFocus))))))
       = \<lparr>minutes = 0, seconds = 59\<rparr>"
    by code_simp
  from p pl [of c] pc hp hpl hs hsl example show ?thesis by blast
qed

theorem pause_keeps_time_start_restarts_witness:
  "oneCadence (timer (tickTimer 10 (handleStartTimer (currentRender oneMinuteFocus) oneMinuteFocus)))
   \<and> live (timer (tickTimer 10 (handleStartTimer (currentRender oneMinuteFocus) oneMinuteFocus)))
       = [1]
   \<and> live (timer (handlePauseTimer
        (tickTimer 10 (handleStartTimer (currentRender oneMinuteFocus) oneMinuteFocus)))) = []
   \<and> time (timer (handlePauseTimer
        (tickTimer 10 (handleStartTimer (currentRender oneMinuteFocus) oneMinuteFocus))))
       = \<lparr>minutes = 0, seconds = 50\<rparr>
   \<and> live (pauseTimer (startTimer \<lparr>minutes = 1, seconds = 0\<rparr> initialClock)) = []
   \<and> length (live (timer (handleStartTimer (currentRender oneMinuteFocus)
        (handlePauseTimer (tickTimer 10
          (handleStartTimer (currentRender oneMinuteFocus) oneMinuteFocus)))))) = 1"
proof -
  let ?a = "tickTimer 10 (handleStartTimer (currentRender oneMinuteFocus) oneMinuteFocus)"
  let ?c = "startTimer \<lparr>minutes = 1, seconds = 0\<rparr> initialClock"
  have a: "timer ?a = \<lparr>time = \<lparr>minutes = 0, seconds = 50\<rparr>, isActive = True,
      intervalRef = Some 1, live = [1]\<rparr>"
    by code_simp
  have oa: "oneCadence (timer ?a)"
    unfolding a by (simp add: oneCadence_def)
  have oc: "oneCadence ?c"
    by (rule oneCadence_startTimer [OF oneCadence_initial])
  note t = pause_keeps_time_start_restarts [of ?c ?a "currentRender oneMinuteFocus"]
  note u = pause_keeps_time_start_restarts
    [of ?c "handlePauseTimer ?a" "currentRender oneMinuteFocus"]
  from t oa have l: "live (timer (handlePauseTimer ?a)) = []"
    by blast
  from t have "time (timer (handlePauseTimer ?a)) = time (timer ?a)"
    by blast
  then have tm: "time (timer (handlePauseTimer ?a)) = \<lparr>minutes = 0, seconds = 50\<rparr>"
    unfolding a by simp
  from t oc have lc: "live (pauseTimer ?c) = []"
    by blast
  have op: "oneCadence (timer (handlePauseTimer ?a))"
    using oneCadence_pauseTimer [OF oa] by (simp add: handlePauseTimer_def)
  from u op obtain h where
    "live (timer (handleStartTimer (currentRender oneMinuteFocus) (handlePauseTimer ?a))) = [h]"
    by blast
  then have ls: "length (live (timer (handleStartTimer (currentRender oneMinuteFocus)
      (handlePauseTimer ?a)))) = 1"
    by simp
  have la: "live (timer ?a) = [1]"
    unfolding a by simp
  from oa la l tm lc ls show ?thesis by blast
qed

text \<open>
  Claim C2 as stated fails: after start at 1:00, ten ticks (0:50), pause (still 0:50)
  and the start control, one tick gives 0:59, not 0:49.
\<close>

theorem resume_from_pause_point_counterexample:
  "time (timer (tickTimer 10 (handleStartTimer (currentRender oneMinuteFocus) oneMinuteFocus)))
     = \<lparr>minutes = 0, seconds = 50\<rparr>
   \<and> time (timer (handlePauseTimer (tickTimer 10
        (handleStartTimer (currentRender oneMinuteFocus) oneMinuteFocus))))
     = \<lparr>minutes = 0, seconds = 50\<rparr>
   \<and> time (timer (tickTimer 1 (handleStartTimer (currentRender oneMinuteFocus)
        (handlePauseTimer (tickTimer 10
          (handleStartTimer (currentRender oneMinuteFocus) oneMinuteFocus))))))
     \<noteq> \<lparr>minutes = 0, seconds = 49\<rparr>"
  by code_simp

section \<open>The completion handler\<close>

lemma focus_branch:
  assumes "phase (r_timerState r) = Focus"
  shows "timerState (fst (handleTimerComplete r a)) =
      \<lparr>phase = (if remIsZero (sessionCount (r_timerState r) + 1) (longBreakInterval (r_settings r))
                then LongBreak else ShortBreak),
       sessionCount = sessionCount (r_timerState r) + 1\<rparr>"
    and "statistics (fst (handleTimerComplete r a)) = (statistics a)
      \<lparr>totalFocusTime := totalFocusTime (statistics a) + focusTime (r_settings r),
       completedSessions := completedSessions (statistics a) + 1\<rparr>"
  using assms by (simp_all add: handleTimerComplete_def Let_def)

text \<open>
  The branch for a break: a handler whose render is in a break sets the phase to
  \<open>Focus\<close>, keeps \<open>sessionCount\<close>, adds the minutes of its break to
  \<open>totalBreakTime\<close>, leaves the clock alone and sets no timeout.
\<close>

lemma break_branch:
  assumes "phase (r_timerState r) \<noteq> Focus"
  shows "handleTimerComplete r a =
      (a\<lparr>timerState := (timerState a)\<lparr>phase := Focus\<rparr>,
         statistics := (statistics a)
           \<lparr>totalBreakTime := totalBreakTime (statistics a)
              + phaseMinutes (r_settings r) (phase (r_timerState r))\<rparr>\<rparr>,
       [PlaySound (PhaseSound Focus), ToastBreakOver])"
  using assms
  by (cases "phase (r_timerState r)") (simp_all add: handleTimerComplete_def phaseMinutes_def)

text \<open>
  The branch for the focus phase: a handler whose render is in the focus phase, with
  a positive \<open>longBreakInterval\<close>, sets \<open>sessionCount\<close> to that render's count plus one
  and the phase to \<open>LongBreak\<close> exactly when the new count is a multiple of the
  interval, to \<open>ShortBreak\<close> otherwise, whatever the latest state of the page is.
  With the interval 4, of seven completions in a row from the initial state, each
  handled in the current render, the focus completions 1, 2 and 3 lead to
  \<open>ShortBreak\<close>, the fourth to \<open>LongBreak\<close>, and \<open>sessionCount\<close> ends at 4.
\<close>

lemma focus_branch_next_phase:
  assumes "phase (r_timerState r) = Focus" and "0 < longBreakInterval (r_settings r)"
  shows "sessionCount (timerState (fst (handleTimerComplete r a)))
        = sessionCount (r_timerState r) + 1
    \<and> (phase (timerState (fst (handleTimerComplete r a))) = LongBreak
        \<longleftrightarrow> (sessionCount (r_timerState r) + 1) mod longBreakInterval (r_settings r) = 0)
    \<and> (phase (timerState (fst (handleTimerComplete r a))) = ShortBreak
        \<longleftrightarrow> (sessionCount (r_timerState r) + 1) mod longBreakInterval (r_settings r) \<noteq> 0)
    \<and> map (\<lambda>n. phase (timerState ((complete ^^ n) (initialApp today)))) [1, 3, 5, 7]
        = [ShortBreak, ShortBreak, ShortBreak, LongBreak]
    \<and> sessionCount (timerState ((complete ^^ 7) (initialApp today))) = 4"
proof -
  have z: "remIsZero (sessionCount (r_timerState r) + 1) (longBreakInterval (r_settings r))
      \<longleftrightarrow> (sessionCount (r_timerState r) + 1) mod longBreakInterval (r_settings r) = 0"
    using assms(2) by (simp add: remIsZero_def)
  have g1: "sessionCount (timerState (fst (handleTimerComplete r a)))
        = sessionCount (r_timerState r) + 1"
    unfolding focus_branch(1) [OF assms(1)] by simp
  have g2: "phase (timerState (fst (handleTimerComplete r a))) = LongBreak
        \<longleftrightarrow> (sessionCount (r_timerState r) + 1) mod longBreakInterval (r_settings r) = 0"
    unfolding focus_branch(1) [OF assms(1)] z by simp
  have g3: "phase (timerState (fst (handleTimerComplete r a))) = ShortBreak
        \<longleftrightarrow> (sessionCount (r_timerState r) + 1) mod longBreakInterval (r_settings r) \<noteq> 0"
    unfolding focus_branch(1) [OF assms(1)] z by simp
  have e1: "map (\<lambda>n. phase (timerState ((complete ^^ n) (initialApp today)))) [1, 3, 5, 7]
        = [ShortBreak, ShortBreak, ShortBreak, LongBreak]"
    by (simp add: eval_nat_numeral complete_def currentRender_def handleTimerComplete_def
        initialApp_def PRESETS_focus_def remIsZero_def Let_def)
  have e2: "sessionCount (timerState ((complete ^^ 7) (initialApp today))) = 4"
    by (simp add: eval_nat_numeral complete_def currentRender_def handleTimerComplete_def
        initialApp_def PRESETS_focus_def remIsZero_def Let_def)
  show ?thesis
    by (intro conjI) (rule g1, rule g2, rule g3, rule e1, rule e2)
qed

section \<open>The run through a focus session and its break\<close>

lemma afterFocus_eq:
  "afterFocus =
     (\<lparr>timerState = \<lparr>phase = ShortBreak, sessionCount = 1\<rparr>,
       settings = PRESETS_focus,
       statistics = \<lparr>totalFocusTime = 25, totalBreakTime = 0, completedSessions = 1,
          mcqReminders = 0, todayDate = ''Thu Jan 01 2026''\<rparr>,
       timer = \<lparr>time = \<lparr>minutes = 0, seconds = 0\<rparr>, isActive = False,
          intervalRef = None, live = []\<rparr>,
       mcqMode = False, mcqInterval = 300, mcqCountdown = 0, mcqIntervalRef = None\<rparr>,
      [PlaySound (PhaseSound ShortBreak), ToastFocusComplete False,
       AutoStart \<lparr>minutes = 5, seconds = 0\<rparr>])"
  by code_simp

lemma afterBreak_eq:
  "afterBreak =
     (\<lparr>timerState = \<lparr>phase = ShortBreak, sessionCount = 1\<rparr>,
       settings = PRESETS_focus,
       statistics = \<lparr>totalFocusTime = 50, totalBreakTime = 0, completedSessions = 2,
          mcqReminders = 0, todayDate = ''Thu Jan 01 2026''\<rparr>,
       timer = \<lparr>time = \<lparr>minutes = 0, seconds = 0\<rparr>, isActive = False,
          intervalRef = None, live = []\<rparr>,
       mcqMode = False, mcqInterval = 300, mcqCountdown = 0, mcqIntervalRef = None\<rparr>,
      [PlaySound (PhaseSound ShortBreak), ToastFocusComplete False,
       AutoStart \<lparr>minutes = 5, seconds = 0\<rparr>])"
  by code_simp

text \<open>
  Claim C4 on the run: the focus completion leaves the page in \<open>ShortBreak\<close> with a
  timeout that starts the break. The completion of that break is handled by the
  handler of the first render, whose phase is \<open>Focus\<close>: the phase stays
  \<open>ShortBreak\<close> instead of returning to \<open>Focus\<close>, no break minutes are recorded,
  and another break is started by timeout. (A handler whose render is in the break
  does what the claim says: lemma \<open>break_branch\<close>.)
\<close>

theorem auto_started_break_completion_stays_in_break:
  "phase (timerState (fst afterFocus)) = ShortBreak
   \<and> sessionCount (timerState (fst afterFocus)) = 1
   \<and> AutoStart \<lparr>minutes = 5, seconds = 0\<rparr> \<in> set (snd afterFocus)
   \<and> time (timer (runTimeouts (snd afterFocus) (fst afterFocus))) = \<lparr>minutes = 5, seconds = 0\<rparr>
   \<and> isActive (timer (runTimeouts (snd afterFocus) (fst afterFocus)))
   \<and> phase (timerState (fst afterBreak)) = ShortBreak
   \<and> sessionCount (timerState (fst afterBreak)) = 1
   \<and> totalBreakTime (statistics (fst afterBreak)) = 0
   \<and> AutoStart \<lparr>minutes = 5, seconds = 0\<rparr> \<in> set (snd afterBreak)"
  by (simp add: afterFocus_eq afterBreak_eq autoStart_def)

text \<open>
  Claim C5 on the run: the focus completion adds 25 to \<open>totalFocusTime\<close> and 1 to
  \<open>completedSessions\<close>, once. The completion of the break that follows adds 25 and 1
  again, so one focus session and one break leave 50 minutes and 2 sessions.
\<close>

theorem auto_started_break_completion_counts_as_focus:
  "totalFocusTime (statistics (fst afterFocus)) = 25
   \<and> completedSessions (statistics (fst afterFocus)) = 1
   \<and> totalFocusTime (statistics (fst afterBreak)) = 50
   \<and> completedSessions (statistics (fst afterBreak)) = 2"
  by (simp add: afterFocus_eq afterBreak_eq)

subsection \<open>Reset before the break is started\<close>

lemma afterRestartedBreak_eq:
  "afterRestartedBreak =
     (\<lparr>timerState = \<lparr>phase = Focus, sessionCount = 1\<rparr>,
       settings = PRESETS_focus,
       statistics = \<lparr>totalFocusTime = 25, totalBreakTime = 5, completedSessions = 1,
          mcqReminders = 0, todayDate = ''Thu Jan 01 2026''\<rparr>,
       timer = \<lparr>time = \<lparr>minutes = 0, seconds = 0\<rparr>, isActive = False,
          intervalRef = None, live = []\<rparr>,
       mcqMode = False, mcqInterval = 300, mcqCountdown = 0, mcqIntervalRef = None\<rparr>,
      [PlaySound (PhaseSound Focus), ToastBreakOver])"
  unfolding afterRestartedBreak_def breakRestarted_def afterFocus_eq by code_simp

lemma afterSecondFocus_eq:
  "afterSecondFocus =
     (\<lparr>timerState = \<lparr>phase = ShortBreak, sessionCount = 2\<rparr>,
       settings = PRESETS_focus,
       statistics = \<lparr>totalFocusTime = 50, totalBreakTime = 5, completedSessions = 2,
          mcqReminders = 0, todayDate = ''Thu Jan 01 2026''\<rparr>,
       timer = \<lparr>time = \<lparr>minutes = 0, seconds = 0\<rparr>, isActive = False,
          intervalRef = None, live = []\<rparr>,
       mcqMode = False, mcqInterval = 300, mcqCountdown = 0, mcqIntervalRef = None\<rparr>,
      [PlaySound (PhaseSound ShortBreak), ToastFocusComplete False,
       AutoStart \<lparr>minutes = 5, seconds = 0\<rparr>])"
  unfolding afterSecondFocus_def secondRender_def afterRestartedBreak_eq by code_simp

lemma resetInDelay_eq:
  "resetInDelay =
     \<lparr>timerState = \<lparr>phase = Focus, sessionCount = 0\<rparr>,
       settings = PRESETS_focus,
       statistics = \<lparr>totalFocusTime = 50, totalBreakTime = 5, completedSessions = 2,
          mcqReminders = 0, todayDate = ''Thu Jan 01 2026''\<rparr>,
       timer = \<lparr>time = \<lparr>minutes = 5, seconds = 0\<rparr>, isActive = True,
          intervalRef = Some 1, live = [1]\<rparr>,
       mcqMode = False, mcqInterval = 300, mcqCountdown = 0, mcqIntervalRef = None\<rparr>"
  unfolding resetInDelay_def afterSecondFocus_eq by code_simp

lemma afterResetRun_eq:
  "afterResetRun =
     (\<lparr>timerState = \<lparr>phase = ShortBreak, sessionCount = 2\<rparr>,
       settings = PRESETS_focus,
       statistics = \<lparr>totalFocusTime = 75, totalBreakTime = 5, completedSessions = 3,
          mcqReminders = 0, todayDate = ''Thu Jan 01 2026''\<rparr>,
       timer = \<lparr>time = \<lparr>minutes = 0, seconds = 0\<rparr>, isActive = False,
          intervalRef = None, live = []\<rparr>,
       mcqMode = False, mcqInterval = 300, mcqCountdown = 0, mcqIntervalRef = None\<rparr>,
      [PlaySound (PhaseSound ShortBreak), ToastFocusComplete False,
       AutoStart \<lparr>minutes = 5, seconds = 0\<rparr>])"
  unfolding afterResetRun_def secondRender_def afterRestartedBreak_eq resetInDelay_eq
  by code_simp

text \<open>
  Claim C3 on the longer run: when the break countdown started by the timeout
  completes, the page is in the focus phase with \<open>sessionCount = 0\<close> and
  \<open>longBreakInterval = 4\<close>. The completion is handled by the handler of the render
  in which the second focus session was started, whose \<open>sessionCount\<close> is 1: it
  sets \<open>sessionCount\<close> to 2, not to \<open>0 + 1\<close>. (A handler whose render holds the
  page's session state does what the claim says: lemma \<open>focus_branch_next_phase\<close>.)
\<close>

theorem reset_in_delay_completion_counts_from_stale_session:
  "timerState (fst afterRestartedBreak) = \<lparr>phase = Focus, sessionCount = 1\<rparr>
   \<and> timerState (fst afterSecondFocus) = \<lparr>phase = ShortBreak, sessionCount = 2\<rparr>
   \<and> timerState resetInDelay = \<lparr>phase = Focus, sessionCount = 0\<rparr>
   \<and> longBreakInterval (settings resetInDelay) = 4
   \<and> isActive (timer resetInDelay)
   \<and> time (timer resetInDelay) = \<lparr>minutes = 5, seconds = 0\<rparr>
   \<and> timerState (fst afterResetRun) = \<lparr>phase = ShortBreak, sessionCount = 2\<rparr>
   \<and> sessionCount (timerState (fst afterResetRun)) \<noteq> sessionCount (timerState resetInDelay) + 1"
  by (simp add: afterRestartedBreak_eq afterSecondFocus_eq resetInDelay_eq afterResetRun_eq
      PRESETS_focus_def)


section \<open>The reminder scheduler\<close>

lemma reminders_simps [simp]:
  "reminders [] = 0"
  "reminders (es @ fs) = reminders es + reminders fs"
  "reminders (ToastMcq # es) = Suc (reminders es)"
  "reminders (PlaySound c # es) = reminders es"
  by (simp_all add: reminders_def)

lemma mcqSecond_fire:
  assumes "mcqIntervalRef a = Some iv" and "mcqCountdown a \<le> 1"
  shows "mcqSecond a =
      (a\<lparr>statistics := (statistics a)\<lparr>mcqReminders := mcqReminders (statistics a) + 1\<rparr>,
         mcqCountdown := iv\<rparr>,
       [PlaySound McqSound, ToastMcq])"
  using assms by (simp add: mcqSecond_def mcqTick_def showMcqReminder_def)

lemma mcqSecond_decrement:
  assumes "mcqIntervalRef a = Some iv" and "1 < mcqCountdown a"
  shows "mcqSecond a = (a\<lparr>mcqCountdown := mcqCountdown a - 1\<rparr>, [])"
  using assms by (simp add: mcqSecond_def mcqTick_def)

lemma mcqSeconds_armed:
  assumes "mcqIntervalRef a = Some (int m)" and "0 < m" and "j < m"
    and "mcqCountdown a = int m - int j"
  shows "reminders (snd (mcqSeconds n a)) = (j + n) div m
    \<and> fst (mcqSeconds n a) =
        a\<lparr>statistics := (statistics a)
             \<lparr>mcqReminders := mcqReminders (statistics a) + int ((j + n) div m)\<rparr>,
          mcqCountdown := int m - int ((j + n) mod m)\<rparr>"
  using assms
proof (induction n arbitrary: a j)
  case 0
  then show ?case by simp
next
  case (Suc n)
  show ?case
  proof (cases "Suc j = m")
    case True
    with Suc.prems have le: "mcqCountdown a \<le> 1" by simp
    let ?a1 = "a\<lparr>statistics := (statistics a)\<lparr>mcqReminders := mcqReminders (statistics a) + 1\<rparr>,
         mcqCountdown := int m\<rparr>"
    have s: "mcqSecond a = (?a1, [PlaySound McqSound, ToastMcq])"
      by (rule mcqSecond_fire [OF Suc.prems(1) le])
    have ih: "reminders (snd (mcqSeconds n ?a1)) = (0 + n) div m
      \<and> fst (mcqSeconds n ?a1) =
        ?a1\<lparr>statistics := (statistics ?a1)
             \<lparr>mcqReminders := mcqReminders (statistics ?a1) + int ((0 + n) div m)\<rparr>,
          mcqCountdown := int m - int ((0 + n) mod m)\<rparr>"
      using Suc.prems by (intro Suc.IH) simp_all
    have e: "j + Suc n = m + n"
      using True by simp
    have d: "(j + Suc n) div m = Suc (n div m)"
      unfolding e using Suc.prems(2) div_add_self1 [of m n] by simp
    have r: "(j + Suc n) mod m = n mod m"
      unfolding e by simp
    show ?thesis
      using s ih unfolding d r by (simp add: split_beta)
  next
    case False
    with Suc.prems have lt: "Suc j < m" and gt: "1 < mcqCountdown a" by simp_all
    let ?a1 = "a\<lparr>mcqCountdown := mcqCountdown a - 1\<rparr>"
    have s: "mcqSecond a = (?a1, [])"
      by (rule mcqSecond_decrement [OF Suc.prems(1) gt])
    have ih: "reminders (snd (mcqSeconds n ?a1)) = (Suc j + n) div m
      \<and> fst (mcqSeconds n ?a1) =
        ?a1\<lparr>statistics := (statistics ?a1)
             \<lparr>mcqReminders := mcqReminders (statistics ?a1) + int ((Suc j + n) div m)\<rparr>,
          mcqCountdown := int m - int ((Suc j + n) mod m)\<rparr>"
      using Suc.prems lt by (intro Suc.IH) simp_all
    show ?thesis
      using s ih by (simp add: split_beta)
  qed
qed

lemma mcqSeconds_unarmed:
  "mcqIntervalRef a = None \<Longrightarrow> mcqSeconds n a = (a, [])"
  by (induction n) (simp_all add: mcqSecond_def)


text \<open>
  Claim C7. With \<open>mcqInterval = 300\<close>: when the reminder is enabled, the clock is
  running and the phase is \<open>Focus\<close>, the effect arms the scheduler, and after \<open>n\<close>
  of its ticks exactly \<open>n div 300\<close> reminders have fired, one on every 300th tick;
  each has added 1 to \<open>mcqReminders\<close>, and the countdown is \<open>300 - n mod 300\<close>, so it
  is back at 300 after each firing. When the feature is disabled, the clock is not
  running or the phase is a break, no reminder fires, whatever the number of ticks.
\<close>

theorem one_reminder_per_interval:
  assumes "mcqInterval a = 300"
  shows "(mcqMode a \<and> isActive (timer a) \<and> phase (timerState a) = Focus \<longrightarrow>
        reminders (snd (mcqSeconds n (mcqEffect a))) = n div 300
      \<and> mcqReminders (statistics (fst (mcqSeconds n (mcqEffect a))))
          = mcqReminders (statistics a) + int (n div 300)
      \<and> mcqCountdown (fst (mcqSeconds n (mcqEffect a))) = 300 - int (n mod 300))
    \<and> (\<not> (mcqMode a \<and> isActive (timer a) \<and> phase (timerState a) = Focus) \<longrightarrow>
        reminders (snd (mcqSeconds n (mcqEffect a))) = 0
      \<and> statistics (fst (mcqSeconds n (mcqEffect a))) = statistics a
      \<and> mcqCountdown (fst (mcqSeconds n (mcqEffect a))) = 0)"
proof (cases "mcqMode a \<and> isActive (timer a) \<and> phase (timerState a) = Focus")
  case True
  let ?a = "mcqEffect a"
  have armed: "mcqIntervalRef ?a = Some (int 300)" "mcqCountdown ?a = int 300 - int 0"
    "statistics ?a = statistics a"
    using True assms by (simp_all add: mcqEffect_def)
  from mcqSeconds_armed [OF armed(1) _ _ armed(2), of n] armed(3) True
  show ?thesis by simp
next
  case False
  then have "mcqIntervalRef (mcqEffect a) = None" "mcqCountdown (mcqEffect a) = 0"
    "statistics (mcqEffect a) = statistics a"
    by (auto simp: mcqEffect_def)
  with False mcqSeconds_unarmed [of "mcqEffect a" n] show ?thesis by auto
qed


theorem one_reminder_per_interval_witness:
  "mcqInterval studying = 300
   \<and> mcqMode studying \<and> isActive (timer studying) \<and> phase (timerState studying) = Focus
   \<and> reminders (snd (mcqSeconds 600 (mcqEffect studying))) = 2
   \<and> mcqCountdown (fst (mcqSeconds 600 (mcqEffect studying))) = 300
   \<and> mcqInterval (initialApp ''Thu Jan 01 2026'') = 300
   \<and> \<not> mcqMode (initialApp ''Thu Jan 01 2026'')
   \<and> reminders (snd (mcqSeconds 600 (mcqEffect (initialApp ''Thu Jan 01 2026'')))) = 0"
proof -
  let ?off = "initialApp ''Thu Jan 01 2026''"
  have on: "mcqInterval studying = 300" "mcqMode studying" "isActive (timer studying)"
    "phase (timerState studying) = Focus"
    by (simp_all add: studying_def handleStartTimer_def initialApp_def)
  have off: "mcqInterval ?off = 300" "\<not> mcqMode ?off"
    by (simp_all add: initialApp_def)
  from one_reminder_per_interval [OF on(1), of 600] on
  have "reminders (snd (mcqSeconds 600 (mcqEffect studying))) = 2
    \<and> mcqCountdown (fst (mcqSeconds 600 (mcqEffect studying))) = 300"
    by simp
  moreover from one_reminder_per_interval [OF off(1), of 600] off
  have "reminders (snd (mcqSeconds 600 (mcqEffect ?off))) = 0"
    by simp
  ultimately show ?thesis using on off by simp
qed

section \<open>Reset and restart\<close>

text \<open>
  Claim C8. From every state of the page (any phase, any \<open>sessionCount\<close>, any state of
  the clock) the Reset button, whose handler belongs to the current render, yields
  phase \<open>Focus\<close> and \<open>sessionCount = 0\<close>, a stopped clock (not active, no cadence held,
  and none live when the clock's only cadence was the one it held) whose remaining
  time is the configured focus time, and leaves statistics and settings unchanged.
\<close>

theorem manual_reset:
  "timerState (handleResetTimer (currentRender a) a) = \<lparr>phase = Focus, sessionCount = 0\<rparr>
   \<and> time (timer (handleResetTimer (currentRender a) a))
       = \<lparr>minutes = focusTime (settings a), seconds = 0\<rparr>
   \<and> \<not> isActive (timer (handleResetTimer (currentRender a) a))
   \<and> intervalRef (timer (handleResetTimer (currentRender a) a)) = None
   \<and> (oneCadence (timer a) \<longrightarrow> live (timer (handleResetTimer (currentRender a) a)) = [])
   \<and> statistics (handleResetTimer (currentRender a) a) = statistics a
   \<and> settings (handleResetTimer (currentRender a) a) = settings a"
proof -
  have "oneCadence (timer a) \<longrightarrow> live (timer (handleResetTimer (currentRender a) a)) = []"
    by (auto simp: handleResetTimer_def resetTimer_def oneCadence_def cancelCadence_def
        clearInterval_def split: option.splits)
  then show ?thesis
    by (simp add: handleResetTimer_def resetTimer_def currentRender_def)
qed

theorem manual_reset_witness:
  "oneCadence (timer (handleStartTimer (currentRender (complete (initialApp ''Thu Jan 01 2026'')))
        (complete (initialApp ''Thu Jan 01 2026''))))
   \<and> isActive (timer (handleStartTimer (currentRender (complete (initialApp ''Thu Jan 01 2026'')))
        (complete (initialApp ''Thu Jan 01 2026''))))
   \<and> timerState (handleStartTimer (currentRender (complete (initialApp ''Thu Jan 01 2026'')))
        (complete (initialApp ''Thu Jan 01 2026''))) = \<lparr>phase = ShortBreak, sessionCount = 1\<rparr>
   \<and> timerState (handleResetTimer
         (currentRender (handleStartTimer (currentRender (complete (initialApp ''Thu Jan 01 2026'')))
            (complete (initialApp ''Thu Jan 01 2026''))))
         (handleStartTimer (currentRender (complete (initialApp ''Thu Jan 01 2026'')))
            (complete (initialApp ''Thu Jan 01 2026''))))
       = \<lparr>phase = Focus, sessionCount = 0\<rparr>
   \<and> timer (handleResetTimer
         (currentRender (handleStartTimer (currentRender (complete (initialApp ''Thu Jan 01 2026'')))
            (complete (initialApp ''Thu Jan 01 2026''))))
         (handleStartTimer (currentRender (complete (initialApp ''Thu Jan 01 2026'')))
            (complete (initialApp ''Thu Jan 01 2026''))))
       = \<lparr>time = \<lparr>minutes = 25, seconds = 0\<rparr>, isActive = False, intervalRef = None, live = []\<rparr>
   \<and> completedSessions (statistics (handleResetTimer
         (currentRender (handleStartTimer (currentRender (complete (initialApp ''Thu Jan 01 2026'')))
            (complete (initialApp ''Thu Jan 01 2026''))))
         (handleStartTimer (currentRender (complete (initialApp ''Thu Jan 01 2026'')))
            (complete (initialApp ''Thu Jan 01 2026''))))) = 1"
proof -
  let ?b = "complete (initialApp ''Thu Jan 01 2026'')"
  let ?a = "handleStartTimer (currentRender ?b) ?b"
  have b: "timer ?b = initialClock" "timerState ?b = \<lparr>phase = ShortBreak, sessionCount = 1\<rparr>"
    "settings ?b = PRESETS_focus" "completedSessions (statistics ?b) = 1"
    by (simp_all add: complete_def currentRender_def handleTimerComplete_def initialApp_def
        PRESETS_focus_def remIsZero_def zeroStatistics_def Let_def)
  have c: "oneCadence (timer ?a)" "isActive (timer ?a)"
    using oneCadence_startTimer [OF oneCadence_initial] b(1)
    by (simp_all add: handleStartTimer_def Let_def)
  have f: "timerState ?a = \<lparr>phase = ShortBreak, sessionCount = 1\<rparr>"
    "focusTime (settings ?a) = 25" "completedSessions (statistics ?a) = 1"
    using b by (simp_all add: handleStartTimer_def Let_def PRESETS_focus_def)
  from manual_reset [of ?a] c f show ?thesis
    by (cases "timer (handleResetTimer (currentRender ?a) ?a)") simp
qed

text \<open>
  Claim C9, as amended. The hook's \<open>startTimer\<close> is a restart for every state: it sets
  the remaining time to the duration and \<open>isActive\<close>, and from a state whose only live
  cadence is the one the ref holds (stopped or running) it leaves exactly one live
  cadence, the new one held by the ref. The worker's \<open>START_TIMER\<close> is guarded by
  \<open>!isRunning\<close>: while the worker is running the message changes nothing and posts
  nothing; when it is not running, the message sets the time and \<open>isRunning\<close> and a
  cadence is held.
\<close>

theorem start_restarts_hook_not_worker:
  "time (startTimer d c) = d \<and> isActive (startTimer d c)
   \<and> (oneCadence c \<longrightarrow>
        (\<exists>h. startTimer d c = \<lparr>time = d, isActive = True, intervalRef = Some h, live = [h]\<rparr>))
   \<and> (isRunning w \<longrightarrow> onmessage (START_TIMER d) w = (w, []))
   \<and> (\<not> isRunning w \<longrightarrow>
        currentTime (fst (onmessage (START_TIMER d) w)) = d
      \<and> isRunning (fst (onmessage (START_TIMER d) w))
      \<and> timerInterval (fst (onmessage (START_TIMER d) w)) \<noteq> None
      \<and> snd (onmessage (START_TIMER d) w) = [])"
proof -
  have hook: "oneCadence c \<longrightarrow>
        (\<exists>h. startTimer d c = \<lparr>time = d, isActive = True, intervalRef = Some h, live = [h]\<rparr>)"
    by (cases c)
       (auto simp: oneCadence_def startTimer_def setInterval_def clearInterval_def Let_def
          split: option.splits)
  have work: "\<not> isRunning w \<longrightarrow> timerInterval (fst (onmessage (START_TIMER d) w)) \<noteq> None"
    by (auto simp: workerStartTimer_def setInterval_def Let_def split: option.splits)
  from hook work show ?thesis by simp
qed

theorem start_restarts_hook_not_worker_witness:
  "oneCadence (startTimer \<lparr>minutes = 25, seconds = 0\<rparr> initialClock)
   \<and> isActive (startTimer \<lparr>minutes = 25, seconds = 0\<rparr> initialClock)
   \<and> time (startTimer \<lparr>minutes = 5, seconds = 0\<rparr>
        (startTimer \<lparr>minutes = 25, seconds = 0\<rparr> initialClock)) = \<lparr>minutes = 5, seconds = 0\<rparr>
   \<and> length (live (startTimer \<lparr>minutes = 5, seconds = 0\<rparr>
        (startTimer \<lparr>minutes = 25, seconds = 0\<rparr> initialClock))) = 1
   \<and> isRunning runningWorker
   \<and> onmessage (START_TIMER \<lparr>minutes = 5, seconds = 0\<rparr>) runningWorker = (runningWorker, [])
   \<and> \<not> isRunning initialWorker
   \<and> currentTime (fst (onmessage (START_TIMER \<lparr>minutes = 5, seconds = 0\<rparr>) initialWorker))
       = \<lparr>minutes = 5, seconds = 0\<rparr>"
proof -
  let ?c = "startTimer \<lparr>minutes = 25, seconds = 0\<rparr> initialClock"
  let ?d = "\<lparr>minutes = 5, seconds = 0\<rparr>"
  have c: "oneCadence ?c" "isActive ?c"
    using oneCadence_startTimer [OF oneCadence_initial] by simp_all
  have w: "isRunning runningWorker" "\<not> isRunning initialWorker"
    by (simp_all add: runningWorker_def initialWorker_def)
  note t = start_restarts_hook_not_worker [of ?d ?c runningWorker]
  note u = start_restarts_hook_not_worker [of ?d ?c initialWorker]
  from t c(1) obtain h where
    "startTimer ?d ?c = \<lparr>time = ?d, isActive = True, intervalRef = Some h, live = [h]\<rparr>"
    by blast
  then have "time (startTimer ?d ?c) = ?d" "length (live (startTimer ?d ?c)) = 1"
    by simp_all
  moreover from t w(1) have "onmessage (START_TIMER ?d) runningWorker = (runningWorker, [])"
    by blast
  moreover from u w(2) have "currentTime (fst (onmessage (START_TIMER ?d) initialWorker)) = ?d"
    by blast
  ultimately show ?thesis using c w by simp
qed

text \<open>
  Claim C9 as stated fails on the worker: running with 25:00, it receives
  \<open>START_TIMER\<close> with 5:00 and keeps 25:00.
\<close>

theorem worker_start_while_running_counterexample:
  "isRunning runningWorker
   \<and> currentTime (fst (onmessage (START_TIMER \<lparr>minutes = 5, seconds = 0\<rparr>) runningWorker))
       \<noteq> \<lparr>minutes = 5, seconds = 0\<rparr>"
  by (simp add: runningWorker_def initialWorker_def)

section \<open>Throttled cadence\<close>

lemma delivered_simps [simp]:
  "delivered [] = 0"
  "delivered (True # bs) = Suc (delivered bs)"
  "delivered (False # bs) = delivered bs"
  by (simp_all add: delivered_def)

lemma cadence_running:
  "intervalRef c = Some h \<Longrightarrow> h \<in> set (live c) \<Longrightarrow> cadence c = tick c"
  by (simp add: cadence_def fire_def)

lemma elapse_ticks:
  "intervalRef c = Some h \<Longrightarrow> h \<in> set (live c) \<Longrightarrow> inRange (time c) \<Longrightarrow>
   delivered sched \<le> totalSeconds (time c) \<Longrightarrow>
   elapse sched c = ticks (delivered sched) c"
proof (induction sched arbitrary: c)
  case Nil
  then show ?case by simp
next
  case (Cons b bs)
  show ?case
  proof (cases b)
    case False
    with Cons show ?thesis by simp
  next
    case True
    with Cons.prems obtain k where k: "totalSeconds (time c) = Suc k" "delivered bs \<le> k"
      by (cases "totalSeconds (time c)") auto
    from tick_decrement [OF Cons.prems(3) k(1)]
    obtain t where t: "tick c = (c\<lparr>time := t\<rparr>, [Tick t])" "inRange t" "totalSeconds t = k"
      by blast
    have "elapse bs (c\<lparr>time := t\<rparr>) = ticks (delivered bs) (c\<lparr>time := t\<rparr>)"
      using Cons.prems(1,2) t k by (intro Cons.IH) simp_all
    then show ?thesis
      using True t(1) cadence_running [OF Cons.prems(1,2)] by simp
  qed
qed

text \<open>
  Claim C10, as amended. The remaining time is derived from the number of tick
  callbacks alone: started at a valid duration, after any stretch of seconds in
  which the host delivered some of the cadence's callbacks and dropped the others,
  the remaining time is the duration minus one second per delivered callback (as
  long as that does not exceed the duration), the same as after that many ticks in
  a row; no wall-clock time is read, dropped callbacks are not made up, and the
  visibility handler changes nothing.
\<close>

theorem remaining_counts_delivered_callbacks:
  assumes "validDuration d" and "delivered sched \<le> totalSeconds d"
  shows "totalSeconds (time (fst (elapse sched (startTimer d c))))
        = totalSeconds d - delivered sched
    \<and> inRange (time (fst (elapse sched (startTimer d c))))
    \<and> completions (snd (elapse sched (startTimer d c))) = 0
    \<and> elapse sched (startTimer d c) = ticks (delivered sched) (startTimer d c)
    \<and> handleVisibilityChange hidden c = c"
proof -
  let ?c = "startTimer d c"
  obtain h where h: "intervalRef ?c = Some h" "h \<in> set (live ?c)"
    using startTimer_running by blast
  have r: "inRange (time ?c)"
    using assms(1) by (simp add: validDuration_inRange)
  have le: "delivered sched \<le> totalSeconds (time ?c)"
    using assms(2) by simp
  have e: "elapse sched ?c = ticks (delivered sched) ?c"
    by (rule elapse_ticks [OF h r le])
  from ticks_countdown [OF r le]
  obtain t where t: "fst (ticks (delivered sched) ?c) = ?c\<lparr>time := t\<rparr>" "inRange t"
      "totalSeconds t = totalSeconds (time ?c) - delivered sched"
      "completions (snd (ticks (delivered sched) ?c)) = 0"
    by blast
  have v: "handleVisibilityChange hidden c = c"
    by (simp add: handleVisibilityChange_def)
  from e t v show ?thesis by simp
qed

theorem remaining_counts_delivered_callbacks_witness:
  "validDuration \<lparr>minutes = 1, seconds = 0\<rparr>
   \<and> delivered [True, False, False, True] \<le> totalSeconds \<lparr>minutes = 1, seconds = 0\<rparr>
   \<and> totalSeconds (time (fst (elapse [True, False, False, True]
        (startTimer \<lparr>minutes = 1, seconds = 0\<rparr> initialClock)))) = 58"
proof -
  let ?d = "\<lparr>minutes = 1, seconds = 0\<rparr>"
  have v: "validDuration ?d"
    by (simp add: validDuration_def)
  have n: "totalSeconds ?d = 60"
    by (simp add: totalSeconds_def)
  have le: "delivered [True, False, False, True] \<le> totalSeconds ?d"
    unfolding n by simp
  have dl: "delivered [True, False, False, True] = 2"
    by simp
  note t = remaining_counts_delivered_callbacks
    [OF v le, where c = initialClock and hidden = False, THEN conjunct1, unfolded n dl]
  from t have "totalSeconds (time (fst (elapse [True, False, False, True]
        (startTimer ?d initialClock)))) = 58"
    by (simp del: elapse.simps)
  with v le show ?thesis by blast
qed

text \<open>
  Claim C10 as stated fails: started at 1:00, after four seconds of which the host
  delivered the callback in the first and the last only, the clock shows 0:58, not
  the 0:56 that the elapsed time gives.
\<close>

theorem remaining_ignores_wall_clock_counterexample:
  "length [True, False, False, True] = 4
   \<and> time (fst (elapse [True, False, False, True]
        (startTimer \<lparr>minutes = 1, seconds = 0\<rparr> initialClock))) = \<lparr>minutes = 0, seconds = 58\<rparr>
   \<and> time (fst (elapse [True, False, False, True]
        (startTimer \<lparr>minutes = 1, seconds = 0\<rparr> initialClock))) \<noteq> \<lparr>minutes = 0, seconds = 56\<rparr>"
  by code_simp

section \<open>Loading the statistics\<close>

lemma getProp_statsJson: "getProp ''todayDate'' (statsJson s) = Inr (Some (JStr (todayDate s)))"
  by (simp add: statsJson_def)

text \<open>
  Claim C6, as amended. Loading yields the zero record with today's key when nothing
  is stored, when the empty string is stored, and when the stored text is the JSON
  text of a value other than \<open>null\<close> whose \<open>todayDate\<close> is not today's date string;
  a stored value whose \<open>todayDate\<close> is today's date string is used as it is. In
  particular a stored statistics record is used when its date is today's and replaced
  by the zero record otherwise.
\<close>

theorem load_statistics_of_json:
  "loadStatistics today NoItem = Inr (statsJson (zeroStatistics today))
   \<and> loadStatistics today EmptyString = Inr (statsJson (zeroStatistics today))
   \<and> (parsed \<noteq> JNull \<longrightarrow> getProp ''todayDate'' parsed \<noteq> Inr (Some (JStr today)) \<longrightarrow>
        loadStatistics today (WellFormed parsed) = Inr (statsJson (zeroStatistics today)))
   \<and> (getProp ''todayDate'' parsed = Inr (Some (JStr today)) \<longrightarrow>
        loadStatistics today (WellFormed parsed) = Inr parsed)
   \<and> loadStatistics today (WellFormed (statsJson s)) =
        (if todayDate s = today then Inr (statsJson s) else Inr (statsJson (zeroStatistics today)))"
proof -
  have a: "parsed \<noteq> JNull \<longrightarrow> getProp ''todayDate'' parsed \<noteq> Inr (Some (JStr today)) \<longrightarrow>
        loadStatistics today (WellFormed parsed) = Inr (statsJson (zeroStatistics today))"
    by (cases parsed) (auto simp: loadStatistics_def)
  have b: "getProp ''todayDate'' parsed = Inr (Some (JStr today)) \<longrightarrow>
        loadStatistics today (WellFormed parsed) = Inr parsed"
    by (simp add: loadStatistics_def)
  have c: "loadStatistics today (WellFormed (statsJson s)) =
        (if todayDate s = today then Inr (statsJson s) else Inr (statsJson (zeroStatistics today)))"
    by (auto simp: loadStatistics_def getProp_statsJson)
  from a b c show ?thesis by (simp add: loadStatistics_def)
qed

theorem load_statistics_of_json_witness:
  "statsJson \<lparr>totalFocusTime = 50, totalBreakTime = 5, completedSessions = 2, mcqReminders = 3,
      todayDate = ''Wed Dec 31 2025''\<rparr> \<noteq> JNull
   \<and> loadStatistics ''Thu Jan 01 2026''
       (WellFormed (statsJson \<lparr>totalFocusTime = 50, totalBreakTime = 5, completedSessions = 2,
          mcqReminders = 3, todayDate = ''Wed Dec 31 2025''\<rparr>))
      = Inr (statsJson (zeroStatistics ''Thu Jan 01 2026''))
   \<and> loadStatistics ''Thu Jan 01 2026''
       (WellFormed (statsJson \<lparr>totalFocusTime = 50, totalBreakTime = 5, completedSessions = 2,
          mcqReminders = 3, todayDate = ''Thu Jan 01 2026''\<rparr>))
      = Inr (statsJson \<lparr>totalFocusTime = 50, totalBreakTime = 5, completedSessions = 2,
          mcqReminders = 3, todayDate = ''Thu Jan 01 2026''\<rparr>)"
proof -
  let ?old = "statsJson \<lparr>totalFocusTime = 50, totalBreakTime = 5, completedSessions = 2,
      mcqReminders = 3, todayDate = ''Wed Dec 31 2025''\<rparr>"
  let ?new = "statsJson \<lparr>totalFocusTime = 50, totalBreakTime = 5, completedSessions = 2,
      mcqReminders = 3, todayDate = ''Thu Jan 01 2026''\<rparr>"
  have o: "?old \<noteq> JNull" "getProp ''todayDate'' ?old \<noteq> Inr (Some (JStr ''Thu Jan 01 2026''))"
    by (simp_all add: statsJson_def)
  have n: "getProp ''todayDate'' ?new = Inr (Some (JStr ''Thu Jan 01 2026''))"
    by (simp add: statsJson_def)
  from load_statistics_of_json [of "''Thu Jan 01 2026''" ?old] o
  have "loadStatistics ''Thu Jan 01 2026'' (WellFormed ?old)
      = Inr (statsJson (zeroStatistics ''Thu Jan 01 2026''))"
    by blast
  moreover from load_statistics_of_json [of "''Thu Jan 01 2026''" ?new] n
  have "loadStatistics ''Thu Jan 01 2026'' (WellFormed ?new) = Inr ?new"
    by blast
  ultimately show ?thesis using o(1) by blast
qed

text \<open>
  Claim C6 as stated fails: with stored text that is not JSON the initializer throws
  the SyntaxError of \<open>JSON.parse\<close>, and with the stored text \<open>null\<close> it throws a
  TypeError on reading \<open>todayDate\<close>; no statistics are loaded.
\<close>

theorem load_statistics_throws_counterexample:
  "loadStatistics ''Thu Jan 01 2026'' Malformed = Inl SyntaxError
   \<and> loadStatistics ''Thu Jan 01 2026'' Malformed
       \<noteq> Inr (statsJson (zeroStatistics ''Thu Jan 01 2026''))
   \<and> loadStatistics ''Thu Jan 01 2026'' (WellFormed JNull) = Inl TypeError"
  by (simp add: loadStatistics_def)

end
